theory Spec2Isabelle
  imports Complex_Main
begin

section \<open>Strings and bytes\<close>

text \<open>
  A Python \<open>str\<close> is a sequence of Unicode code points and a \<open>bytes\<close> object a
  sequence of numbers below 256. Both are lists of naturals here, so that \<open>len\<close>,
  slicing and comparison are those of the source. \<open>S\<close> turns an ASCII literal of
  the source into such a list.
\<close>

type_synonym pystr = "nat list"
type_synonym pybytes = "nat list"

definition S :: "string \<Rightarrow> pystr" where
  "S s = map of_char s"

section \<open>Jobs\<close>

text \<open>
  \<open>JobKind\<close> and \<open>JobState\<close> are enums of the host application. The code names
  the members \<open>diffusion\<close>, \<open>animation\<close>, \<open>upscaling\<close> and \<open>finished\<close>;
  \<open>other_kind\<close> and \<open>other_state\<close> stand for the members it never names.
\<close>

datatype JobKind = diffusion | animation | upscaling | other_kind

datatype JobState = finished | other_state

text \<open>
  The code reads \<open>job.params.name\<close> through \<open>getattr\<close> with a default and
  \<open>job.params.strength\<close> behind \<open>hasattr\<close>: an attribute that may be missing is
  an \<open>option\<close>. Floats are modelled by rationals.
\<close>

record JobParams =
  name :: "pystr option"
  strength :: "rat option"

record 'img Job =
  job_id :: pystr
  kind :: JobKind
  state :: JobState
  params :: JobParams
  results :: "'img list"

section \<open>Image type of a job\<close>

text \<open>
  \<^verbatim>\<open>
  if job.kind is JobKind.upscaling:
      image_type = "Upscale"
  else:
      is_refined = hasattr(job.params, 'strength') and job.params.strength < 1.0
      image_type = "Refine" if is_refined else "ImgGenerate"
  \<close>
  (\<open>persistence.py\<close>, in \<open>_auto_save_images\<close> and again in
  \<open>_auto_save_images_from_history\<close>).
\<close>

definition is_refined :: "JobParams \<Rightarrow> bool" where
  "is_refined p = (case strength p of None \<Rightarrow> False | Some s \<Rightarrow> s < 1)"

definition image_type :: "'img Job \<Rightarrow> pystr" where
  "image_type job =
     (if kind job = upscaling then S ''Upscale''
      else if is_refined (params job) then S ''Refine'' else S ''ImgGenerate'')"

definition diffusion_job :: "rat \<Rightarrow> nat Job" where
  "diffusion_job s =
     \<lparr>job_id = S ''j1'', kind = diffusion, state = finished,
      params = \<lparr>name = Some (S ''a cat''), strength = Some s\<rparr>, results = [0]\<rparr>"

section \<open>JSON values and \<open>json.dumps\<close>\<close>

text \<open>
  The values the code hands to \<open>json.dumps\<close>. A \<open>dict\<close> keeps its insertion
  order, so an object is the list of its items in that order.
\<close>

datatype json = JNull | JBool bool | JInt int | JFloat rat | JStr pystr
  | JArr "json list" | JObj "(pystr \<times> json) list"

fun dec_digits :: "nat \<Rightarrow> pystr" where
  "dec_digits n = (if n < 10 then [48 + n] else dec_digits (n div 10) @ [48 + n mod 10])"

declare dec_digits.simps [simp del]

text \<open>\<open>str(i)\<close> of an integer: its decimal digits, with a leading minus sign.\<close>

definition py_str_int :: "int \<Rightarrow> pystr" where
  "py_str_int i = (if i < 0 then 45 # dec_digits (nat (- i)) else dec_digits (nat i))"

text \<open>The number a digit string stands for.\<close>

definition undec :: "pystr \<Rightarrow> nat" where
  "undec ds = foldl (\<lambda>a d. 10 * a + (d - 48)) 0 ds"

definition hex_digit :: "nat \<Rightarrow> nat" where
  "hex_digit d = (if d < 10 then 48 + d else 87 + d)"

text \<open>
  String escaping of \<open>json.dumps(..., ensure_ascii=False)\<close>: backslash (92), double
  quote (34) and the control characters below 32 are escaped, everything else is kept.
\<close>

definition escape_char :: "nat \<Rightarrow> pystr" where
  "escape_char c =
     (if c = 92 then [92, 92]
      else if c = 34 then [92, 34]
      else if c = 8 then [92, 98]
      else if c = 12 then [92, 102]
      else if c = 10 then [92, 110]
      else if c = 13 then [92, 114]
      else if c = 9 then [92, 116]
      else if c < 32 then [92, 117, 48, 48, hex_digit (c div 16), hex_digit (c mod 16)]
      else [c])"

definition encode_basestring :: "pystr \<Rightarrow> pystr" where
  "encode_basestring s = [34] @ concat (map escape_char s) @ [34]"

text \<open>
  \<open>json.dumps(v, ensure_ascii=False, separators=(',', ':'))\<close>. The text of a float
  is Python's \<open>repr\<close>, taken as the parameter \<open>f\<close>.
\<close>

fun dumps :: "(rat \<Rightarrow> pystr) \<Rightarrow> json \<Rightarrow> pystr"
  and dumps_items :: "(rat \<Rightarrow> pystr) \<Rightarrow> json list \<Rightarrow> pystr"
  and dumps_members :: "(rat \<Rightarrow> pystr) \<Rightarrow> (pystr \<times> json) list \<Rightarrow> pystr"
where
  "dumps f JNull = S ''null''"
| "dumps f (JBool b) = (if b then S ''true'' else S ''false'')"
| "dumps f (JInt i) = py_str_int i"
| "dumps f (JFloat r) = f r"
| "dumps f (JStr s) = encode_basestring s"
| "dumps f (JArr xs) = S ''['' @ dumps_items f xs @ S '']''"
| "dumps f (JObj ms) = S ''{'' @ dumps_members f ms @ S ''}''"
| "dumps_items f [] = []"
| "dumps_items f [x] = dumps f x"
| "dumps_items f (x # y # xs) = dumps f x @ S '','' @ dumps_items f (y # xs)"
| "dumps_members f [] = []"
| "dumps_members f [(k, v)] = encode_basestring k @ S '':'' @ dumps f v"
| "dumps_members f ((k, v) # m # ms) =
     encode_basestring k @ S '':'' @ dumps f v @ S '','' @ dumps_members f (m # ms)"

section \<open>The embedded payload\<close>

text \<open>\<open>d.get(k, default)\<close> on a dict held as its item list.\<close>

definition dict_get :: "(pystr \<times> json) list \<Rightarrow> pystr \<Rightarrow> json \<Rightarrow> json" where
  "dict_get d k dflt = (case map_of d k of None \<Rightarrow> dflt | Some v \<Rightarrow> v)"

text \<open>
  \<^verbatim>\<open>
  metadata_json = json.dumps(all_metadata, ensure_ascii=False, separators=(',', ':'))
  if len(metadata_json) > 4000:
      essential_metadata = {
          "prompt": all_metadata.get("prompt", ""),
          "seed": all_metadata.get("seed", 0),
          "strength": all_metadata.get("strength", 1.0),
          "generation_type": all_metadata.get("generation_type", ""),
          "timestamp": all_metadata.get("timestamp", ""),
          "truncated": True
      }
      metadata_json = json.dumps(essential_metadata, ensure_ascii=False, separators=(',', ':'))
  \<close>
  (\<open>persistence.py\<close> and \<open>auto_save.py\<close>, the same text).
\<close>

definition essential_metadata :: "(pystr \<times> json) list \<Rightarrow> (pystr \<times> json) list" where
  "essential_metadata all_metadata =
     [(S ''prompt'', dict_get all_metadata (S ''prompt'') (JStr [])),
      (S ''seed'', dict_get all_metadata (S ''seed'') (JInt 0)),
      (S ''strength'', dict_get all_metadata (S ''strength'') (JFloat 1)),
      (S ''generation_type'', dict_get all_metadata (S ''generation_type'') (JStr [])),
      (S ''timestamp'', dict_get all_metadata (S ''timestamp'') (JStr [])),
      (S ''truncated'', JBool True)]"

definition metadata_json :: "(rat \<Rightarrow> pystr) \<Rightarrow> (pystr \<times> json) list \<Rightarrow> pystr" where
  "metadata_json f all_metadata =
     (let full = dumps f (JObj all_metadata)
      in if length full > 4000 then dumps f (JObj (essential_metadata all_metadata))
         else full)"

text \<open>
  The record the code builds for image 0 of a one-image diffusion job of strength 1.0
  whose prompt is \<open>p\<close> and whose metadata mapping is empty.
\<close>

definition record_with_prompt :: "pystr \<Rightarrow> (pystr \<times> json) list" where
  "record_with_prompt p =
     [(S ''prompt'', JStr p),
      (S ''negative_prompt'', JStr []),
      (S ''seed'', JInt 42),
      (S ''strength'', JFloat 1),
      (S ''style'', JStr []),
      (S ''checkpoint'', JStr []),
      (S ''sampler'', JStr []),
      (S ''generation_type'', JStr (S ''ImgGenerate'')),
      (S ''job_kind'', JStr (S ''diffusion'')),
      (S ''timestamp'', JStr (S ''2024-01-01 12:00:00'')),
      (S ''batch_index'', JInt 0),
      (S ''total_images'', JInt 1)]"

section \<open>The host: settings, file system, clock\<close>

record settings =
  auto_save_generated :: bool
  auto_save_folder :: pystr

datatype error = OSError | PrepareError | SaveError

text \<open>
  What the code can change: the directories it asked for, the files it wrote (each with
  the image and the text entries handed to \<open>Image.save\<close>), and the number of times
  the clock was read.
\<close>

record 'img world =
  dirs :: "pystr set"
  files :: "pystr \<rightharpoonup> 'img \<times> (pystr \<times> pystr) list"
  ticks :: nat

text \<open>
  The collaborators that are not part of these sources: whether \<open>Path.mkdir\<close> and
  \<open>Image.save\<close> raise, \<open>datetime.now().strftime('%Y%m%d-%H%M%S-%f')\<close> at the
  n-th reading of the clock, the document's file name, \<open>Path(...).stem\<close>,
  \<open>ImageTypeDetector.get_image_type\<close> and \<open>MetadataFormatter.prepare_for_save\<close>
  (module \<open>utils\<close>), and \<open>repr\<close> of a float.
\<close>

record 'img host =
  mkdir_fails :: "'img world \<Rightarrow> pystr \<Rightarrow> bool"
  save_fails :: "'img world \<Rightarrow> pystr \<Rightarrow> 'img \<Rightarrow> bool"
  now :: "nat \<Rightarrow> pystr"
  doc_filename :: pystr
  path_stem :: "pystr \<Rightarrow> pystr"
  get_image_type :: "'img Job \<Rightarrow> pystr"
  prepare_for_save :: "'img Job \<Rightarrow> nat \<Rightarrow> pystr \<Rightarrow> error + (pystr \<times> json) list"
  float_repr :: "rat \<Rightarrow> pystr"

definition mkdir :: "'img host \<Rightarrow> pystr \<Rightarrow> 'img world \<Rightarrow> error + 'img world" where
  "mkdir h p w =
     (if mkdir_fails h w p then Inl OSError else Inr (w\<lparr>dirs := insert p (dirs w)\<rparr>))"

definition img_save ::
  "'img host \<Rightarrow> 'img \<Rightarrow> pystr \<Rightarrow> (pystr \<times> pystr) list \<Rightarrow> 'img world \<Rightarrow> error + 'img world" where
  "img_save h img path metadata w =
     (if save_fails h w path img then Inl SaveError
      else Inr (w\<lparr>files := (files w)(path \<mapsto> (img, metadata))\<rparr>))"

text \<open>\<open>folder / name\<close> of \<open>pathlib\<close>, for a relative \<open>name\<close>.\<close>

definition joinpath :: "pystr \<Rightarrow> pystr \<Rightarrow> pystr" where
  "joinpath folder fname = folder @ S ''/'' @ fname"

section \<open>\<open>AutoSaveManager.save_job_images\<close>\<close>

text \<open>
  \<^verbatim>\<open>
  prompt = getattr(job.params, 'name', 'image')
  prompt = str(prompt).replace(' ', '_')[:50]
  timestamp = datetime.now().strftime('%Y%m%d-%H%M%S-%f')[:-3]
  filename = f"{prompt}_{timestamp}_{image_type}_{i}.png"
  path = type_folder / filename
  \<close>
\<close>

definition prompt_prefix :: "'img Job \<Rightarrow> pystr" where
  "prompt_prefix job =
     take 50 (map (\<lambda>c. if c = 32 then 95 else c)
       (case name (params job) of None \<Rightarrow> S ''image'' | Some n \<Rightarrow> n))"

definition timestamp_ms :: "'img host \<Rightarrow> 'img world \<Rightarrow> pystr" where
  "timestamp_ms h w = (let s = now h (ticks w) in take (length s - 3) s)"

definition image_filename :: "'img host \<Rightarrow> 'img Job \<Rightarrow> pystr \<Rightarrow> nat \<Rightarrow> 'img world \<Rightarrow> pystr" where
  "image_filename h job it i w =
     prompt_prefix job @ S ''_'' @ timestamp_ms h w @ S ''_'' @ it @ S ''_''
       @ py_str_int (int i) @ S ''.png''"

definition image_path ::
  "'img host \<Rightarrow> 'img Job \<Rightarrow> pystr \<Rightarrow> pystr \<Rightarrow> nat \<Rightarrow> 'img world \<Rightarrow> pystr" where
  "image_path h job type_folder it i w = joinpath type_folder (image_filename h job it i w)"

text \<open>
  One turn of the loop over \<open>enumerate(job.results)\<close>: the body of the \<open>try\<close>, and
  \<open>False\<close> when the \<open>except Exception\<close> caught something.
\<close>

definition save_image ::
  "'img host \<Rightarrow> 'img Job \<Rightarrow> pystr \<Rightarrow> pystr \<Rightarrow> nat \<Rightarrow> 'img \<Rightarrow> 'img world \<Rightarrow> bool \<times> 'img world" where
  "save_image h job type_folder it i img w =
     (let path = image_path h job type_folder it i w;
          w1 = w\<lparr>ticks := Suc (ticks w)\<rparr>
      in case prepare_for_save h job i it of
           Inl e \<Rightarrow> (False, w1)
         | Inr all_metadata \<Rightarrow>
             (case img_save h img path
                     [(S ''metadata'', metadata_json (float_repr h) all_metadata)] w1 of
                Inl e \<Rightarrow> (False, w1)
              | Inr w2 \<Rightarrow> (True, w2)))"

fun save_images ::
  "'img host \<Rightarrow> 'img Job \<Rightarrow> pystr \<Rightarrow> pystr \<Rightarrow> nat \<Rightarrow> 'img list \<Rightarrow> nat \<Rightarrow> 'img world
     \<Rightarrow> nat \<times> 'img world" where
  "save_images h job type_folder it i [] saved_count w = (saved_count, w)"
| "save_images h job type_folder it i (img # imgs) saved_count w =
     (case save_image h job type_folder it i img w of
        (ok, w') \<Rightarrow>
          save_images h job type_folder it (Suc i) imgs
            (if ok then Suc saved_count else saved_count) w')"

text \<open>
  The lines before the loop: the three \<open>mkdir\<close> calls, none of them inside a
  \<open>try\<close>, and the image type. The result is the type folder and the image type, or
  the exception, with the world as it is then.
\<close>

definition doc_name :: "'img host \<Rightarrow> pystr" where
  "doc_name h =
     (if doc_filename h \<noteq> [] then path_stem h (doc_filename h) else S ''unsaved_document'')"

definition prepare_folders ::
  "settings \<Rightarrow> 'img host \<Rightarrow> 'img Job \<Rightarrow> 'img world \<Rightarrow> (error + pystr \<times> pystr) \<times> 'img world" where
  "prepare_folders st h job w =
     (let base_folder = auto_save_folder st
      in case mkdir h base_folder w of
           Inl e \<Rightarrow> (Inl e, w)
         | Inr w1 \<Rightarrow>
             (let doc_folder = joinpath base_folder (doc_name h)
              in case mkdir h doc_folder w1 of
                   Inl e \<Rightarrow> (Inl e, w1)
                 | Inr w2 \<Rightarrow>
                     (let it = get_image_type h job;
                          type_folder = joinpath doc_folder it
                      in case mkdir h type_folder w2 of
                           Inl e \<Rightarrow> (Inl e, w2)
                         | Inr w3 \<Rightarrow> (Inr (type_folder, it), w3))))"

definition save_job_images ::
  "settings \<Rightarrow> 'img host \<Rightarrow> 'img Job \<Rightarrow> 'img world \<Rightarrow> (error + nat) \<times> 'img world" where
  "save_job_images st h job w =
     (if \<not> auto_save_generated st then (Inr 0, w)
      else if results job = [] then (Inr 0, w)
      else case prepare_folders st h job w of
             (Inl e, w') \<Rightarrow> (Inl e, w')
           | (Inr (type_folder, it), w') \<Rightarrow>
               (case save_images h job type_folder it 0 (results job) 0 w' of
                  (saved_count, w'') \<Rightarrow> (Inr saved_count, w'')))"

text \<open>
  What happened to each image of the batch, in order: whether its save succeeded, and the
  path computed for it.
\<close>

fun save_trace ::
  "'img host \<Rightarrow> 'img Job \<Rightarrow> pystr \<Rightarrow> pystr \<Rightarrow> nat \<Rightarrow> 'img list \<Rightarrow> 'img world
     \<Rightarrow> (bool \<times> pystr) list" where
  "save_trace h job type_folder it i [] w = []"
| "save_trace h job type_folder it i (img # imgs) w =
     (fst (save_image h job type_folder it i img w), image_path h job type_folder it i w)
       # save_trace h job type_folder it (Suc i) imgs
           (snd (save_image h job type_folder it i img w))"

text \<open>
  What a batch is expected to do, said with the collaborators alone. The save of the
  image \<open>i\<close> succeeds when \<open>prepare_for_save\<close> returns a record and
  \<open>Image.save\<close> does not raise at the path of the image, the clock having been read
  once more; it then leaves the image at that path, with the payload of the record under
  the key \<open>metadata\<close>. Otherwise nothing but the clock has changed.
\<close>

definition image_saved ::
  "'img host \<Rightarrow> 'img Job \<Rightarrow> pystr \<Rightarrow> pystr \<Rightarrow> nat \<Rightarrow> 'img \<Rightarrow> 'img world \<Rightarrow> bool" where
  "image_saved h job type_folder it i img w =
     (case prepare_for_save h job i it of
        Inl e \<Rightarrow> False
      | Inr all_metadata \<Rightarrow>
          \<not> save_fails h (w\<lparr>ticks := Suc (ticks w)\<rparr>) (image_path h job type_folder it i w) img)"

definition world_after_image ::
  "'img host \<Rightarrow> 'img Job \<Rightarrow> pystr \<Rightarrow> pystr \<Rightarrow> nat \<Rightarrow> 'img \<Rightarrow> 'img world \<Rightarrow> 'img world" where
  "world_after_image h job type_folder it i img w =
     (case prepare_for_save h job i it of
        Inl e \<Rightarrow> w\<lparr>ticks := Suc (ticks w)\<rparr>
      | Inr all_metadata \<Rightarrow>
          if save_fails h (w\<lparr>ticks := Suc (ticks w)\<rparr>) (image_path h job type_folder it i w) img
          then w\<lparr>ticks := Suc (ticks w)\<rparr>
          else w\<lparr>ticks := Suc (ticks w),
                 files := (files w)(image_path h job type_folder it i w
                   \<mapsto> (img, [(S ''metadata'', metadata_json (float_repr h) all_metadata)]))\<rparr>)"

text \<open>
  The images of a batch in order, each in the world the earlier ones have left: whether
  its save succeeds and at which path; and the world after the last one.
\<close>

fun batch_attempts ::
  "'img host \<Rightarrow> 'img Job \<Rightarrow> pystr \<Rightarrow> pystr \<Rightarrow> nat \<Rightarrow> 'img list \<Rightarrow> 'img world
     \<Rightarrow> (bool \<times> pystr) list" where
  "batch_attempts h job type_folder it i [] w = []"
| "batch_attempts h job type_folder it i (img # imgs) w =
     (image_saved h job type_folder it i img w, image_path h job type_folder it i w)
       # batch_attempts h job type_folder it (Suc i) imgs
           (world_after_image h job type_folder it i img w)"

fun world_after_batch ::
  "'img host \<Rightarrow> 'img Job \<Rightarrow> pystr \<Rightarrow> pystr \<Rightarrow> nat \<Rightarrow> 'img list \<Rightarrow> 'img world
     \<Rightarrow> 'img world" where
  "world_after_batch h job type_folder it i [] w = w"
| "world_after_batch h job type_folder it i (img # imgs) w =
     world_after_batch h job type_folder it (Suc i) imgs
       (world_after_image h job type_folder it i img w)"

section \<open>\<open>AutoSaveManager.save_all_history_images\<close>\<close>



section \<open>A host for the examples\<close>

text \<open>
  Auto-save is on; no directory is refused; saving fails for the image \<open>1\<close> and for
  no other; every reading of the clock falls in the same microsecond.
\<close>

definition settings_on :: settings where
  "settings_on = \<lparr>auto_save_generated = True, auto_save_folder = S ''out''\<rparr>"

definition test_host :: "nat host" where
  "test_host =
     \<lparr>mkdir_fails = (\<lambda>w p. False),
      save_fails = (\<lambda>w p img. img = 1),
      now = (\<lambda>n. S ''20240101-120000-000000''),
      doc_filename = [],
      path_stem = (\<lambda>p. p),
      get_image_type = (\<lambda>job. S ''Generate''),
      prepare_for_save = (\<lambda>job i it. Inr [(S ''prompt'', JStr (S ''a cat''))]),
      float_repr = (\<lambda>r. S ''1.0'')\<rparr>"

definition empty_world :: "nat world" where
  "empty_world = \<lparr>dirs = {}, files = Map.empty, ticks = 0\<rparr>"

definition batch_job :: "nat list \<Rightarrow> nat Job" where
  "batch_job imgs = (diffusion_job 1)\<lparr>results := imgs\<rparr>"

section \<open>The standard library, as far as the reader uses it\<close>

text \<open>
  \<open>bytes.decode('utf-8', errors='ignore')\<close>, \<open>json.loads\<close>, \<open>zlib.decompress\<close>,
  \<open>str.upper\<close> and \<open>str.lower\<close> are parameters of the model. A call that raises
  returns \<open>Inl\<close> with \<open>str(e)\<close> of the exception, the text the code puts into its
  messages. \<open>unbound_local_re\<close> is \<open>str(e)\<close> of the \<open>UnboundLocalError\<close> that
  reading the local name \<open>re\<close> raises before its \<open>import\<close> has run; the wording
  depends on the version of Python.
\<close>

record stdlib =
  utf8_ignore :: "pybytes \<Rightarrow> pystr"
  json_loads :: "pystr \<Rightarrow> pystr + json"
  zlib_decompress :: "pybytes \<Rightarrow> pystr + pybytes"
  str_upper :: "pystr \<Rightarrow> pystr"
  str_lower :: "pystr \<Rightarrow> pystr"
  unbound_local_re :: pystr

text \<open>\<open>str.strip()\<close>: the code points for which \<open>str.isspace\<close> holds.\<close>

definition is_space :: "nat \<Rightarrow> bool" where
  "is_space c =
     ((9 \<le> c \<and> c \<le> 13) \<or> (28 \<le> c \<and> c \<le> 32) \<or> c = 133 \<or> c = 160 \<or> c = 5760
      \<or> (8192 \<le> c \<and> c \<le> 8202) \<or> c = 8232 \<or> c = 8233 \<or> c = 8239 \<or> c = 8287
      \<or> c = 12288)"

definition strip :: "pystr \<Rightarrow> pystr" where
  "strip s = rev (dropWhile is_space (rev (dropWhile is_space s)))"

text \<open>\<open>chunk.find(b'\0', start)\<close>: \<open>None\<close> is the source's \<open>-1\<close>.\<close>

definition find_null_from :: "pybytes \<Rightarrow> nat \<Rightarrow> nat option" where
  "find_null_from chunk start =
     (if 0 \<in> set (drop start chunk)
      then Some (start + length (takeWhile (\<lambda>b. b \<noteq> 0) (drop start chunk)))
      else None)"

definition find_null :: "pybytes \<Rightarrow> nat option" where
  "find_null chunk = find_null_from chunk 0"

section \<open>\<open>re.findall\<close> for the chunk patterns\<close>

text \<open>
  \<open>re.findall(b'tEXt(.*?)(?=tEXt|IDAT|IEND)', data, re.DOTALL)\<close> and its siblings: a
  four-byte tag, a lazy group of any bytes, and a lookahead for one of the stop words.
  The scan goes from left to right; at a tag, the group is the shortest run of bytes
  that is followed by a stop word, and the scan goes on at that stop word; where there
  is no tag, or no stop word after it, the scan moves one byte on.
\<close>

definition starts_with :: "pybytes \<Rightarrow> pybytes \<Rightarrow> bool" where
  "starts_with p bs = (take (length p) bs = p)"

fun upto_lookahead :: "pybytes list \<Rightarrow> pybytes \<Rightarrow> (pybytes \<times> pybytes) option" where
  "upto_lookahead stops [] = None"
| "upto_lookahead stops (b # bs) =
     (if list_ex (\<lambda>s. starts_with s (b # bs)) stops then Some ([], b # bs)
      else case upto_lookahead stops bs of
             None \<Rightarrow> None
           | Some (g, r) \<Rightarrow> Some (b # g, r))"

lemma upto_lookahead_rest:
  "upto_lookahead stops xs = Some (g, r) \<Longrightarrow> length r \<le> length xs"
  by (induction xs arbitrary: g r) (auto split: if_splits option.splits)

function findall :: "pybytes \<Rightarrow> pybytes list \<Rightarrow> pybytes \<Rightarrow> pybytes list" where
  "findall tag stops [] = []"
| "findall tag stops (b # bs) =
     (if starts_with tag (b # bs) then
        (case upto_lookahead stops (drop 4 (b # bs)) of
           Some (g, r) \<Rightarrow> g # findall tag stops r
         | None \<Rightarrow> findall tag stops bs)
      else findall tag stops bs)"
  by pat_completeness auto
termination
proof (relation "measure (\<lambda>(tag, stops, data). length data)")
  fix tag :: pybytes and stops :: "pybytes list" and b :: nat and bs g r :: pybytes
  fix x2 :: "pybytes \<times> pybytes"
  assume "upto_lookahead stops (drop 4 (b # bs)) = Some x2" and "(g, r) = x2"
  then have "length r \<le> length (drop 4 (b # bs))"
    using upto_lookahead_rest [of stops "drop 4 (b # bs)" g r] by simp
  then show "((tag, stops, r), (tag, stops, b # bs)) \<in> measure (\<lambda>(tag, stops, data). length data)"
    by simp
qed simp_all

definition png_chunks :: "pybytes \<Rightarrow> pybytes \<Rightarrow> pybytes list" where
  "png_chunks tag data = findall tag [tag, S ''IDAT'', S ''IEND''] data"

section \<open>The metadata dictionary of \<open>_load_external_image\<close>\<close>

text \<open>A value of the dictionary is a text, or the parsed JSON of the AI record.\<close>

datatype mval = Text pystr | Parsed json

type_synonym metadata = "pystr \<rightharpoonup> mval"

definition ai_key :: pystr where
  "ai_key = S ''AI_METADATA_JSON''"

definition is_ai_keyword :: "pystr \<Rightarrow> bool" where
  "is_ai_keyword keyword =
     (keyword = S ''AI_METADATA_JSON'' \<or> keyword = S ''AI'' \<or> keyword = S ''AI_META'')"

subsection \<open>The \<open>tEXt\<close> loop\<close>

text \<open>
  \<^verbatim>\<open>
  null_pos = chunk.find(b'\0')
  if null_pos != -1:
      keyword = chunk[:null_pos].decode('utf-8', errors='ignore')
      text_data = chunk[null_pos+1:].decode('utf-8', errors='ignore')
      if keyword == "AI_METADATA_JSON" or keyword == "AI" or keyword == "AI_META":
          try:
              parsed_metadata = json.loads(text_data.strip())
              metadata["AI_METADATA_JSON"] = parsed_metadata
          except Exception as e:
              metadata[f"PNG_tEXt_{keyword}"] = f"Error parsing JSON: {str(e)}"
      elif keyword == "metadata":
          try:
              parsed_metadata = json.loads(text_data.strip())
              metadata["AI_METADATA_JSON"] = parsed_metadata
          except:
              metadata[f"PNG_tEXt_{keyword}"] = text_data
      else:
          metadata[f"PNG_tEXt_{keyword}"] = text_data
  \<close>
\<close>

definition text_chunk :: "stdlib \<Rightarrow> pybytes \<Rightarrow> metadata \<Rightarrow> metadata" where
  "text_chunk L chunk metadata =
     (case find_null chunk of
        None \<Rightarrow> metadata
      | Some null_pos \<Rightarrow>
          (let keyword = utf8_ignore L (take null_pos chunk);
               text_data = utf8_ignore L (drop (null_pos + 1) chunk)
           in if is_ai_keyword keyword then
                (case json_loads L (strip text_data) of
                   Inr parsed_metadata \<Rightarrow> metadata(ai_key \<mapsto> Parsed parsed_metadata)
                 | Inl e \<Rightarrow>
                     metadata(S ''PNG_tEXt_'' @ keyword \<mapsto> Text (S ''Error parsing JSON: '' @ e)))
              else if keyword = S ''metadata'' then
                (case json_loads L (strip text_data) of
                   Inr parsed_metadata \<Rightarrow> metadata(ai_key \<mapsto> Parsed parsed_metadata)
                 | Inl e \<Rightarrow> metadata(S ''PNG_tEXt_'' @ keyword \<mapsto> Text text_data))
              else metadata(S ''PNG_tEXt_'' @ keyword \<mapsto> Text text_data)))"

subsection \<open>The \<open>zTXt\<close> loop\<close>

text \<open>
  The body of the inner \<open>try\<close>, the same text under both keyword tests:
  \<^verbatim>\<open>
  compression_method = chunk[null_pos + 1]
  if compression_method == 0:  # zlib compression
      compressed_data = chunk[null_pos + 2:]
      decompressed_data = zlib.decompress(compressed_data)
      text_data = decompressed_data.decode('utf-8', errors='ignore')
      parsed_metadata = json.loads(text_data.strip())
      metadata["AI_METADATA_JSON"] = parsed_metadata
  else:
      metadata[f"PNG_zTXt_{keyword}"] = f"Compression non supportee: {compression_method}"
  \<close>
  (the source writes \<open>supportee\<close> with an acute accent on its first \<open>e\<close>).
  Indexing past the end of the chunk raises \<open>IndexError\<close>; that, an error of
  \<open>zlib.decompress\<close> and an error of \<open>json.loads\<close> all end in the \<open>except\<close> of
  the \<open>try\<close>, with their text.
\<close>

datatype ztxt_result = ZParsed json | ZUnsupported nat | ZError pystr

definition read_ztxt :: "stdlib \<Rightarrow> pybytes \<Rightarrow> nat \<Rightarrow> ztxt_result" where
  "read_ztxt L chunk null_pos =
     (if null_pos + 1 < length chunk then
        (let compression_method = chunk ! (null_pos + 1)
         in if compression_method = 0 then
              (case zlib_decompress L (drop (null_pos + 2) chunk) of
                 Inl e \<Rightarrow> ZError e
               | Inr decompressed_data \<Rightarrow>
                   (case json_loads L (strip (utf8_ignore L decompressed_data)) of
                      Inl e \<Rightarrow> ZError e
                    | Inr parsed_metadata \<Rightarrow> ZParsed parsed_metadata))
            else ZUnsupported compression_method)
      else ZError (S ''index out of range''))"

text \<open>The texts with an accent: \<open>e\<close> acute is the code point 233.\<close>

definition unsupported_compression :: "nat \<Rightarrow> pystr" where
  "unsupported_compression compression_method =
     S ''Compression non support'' @ [233] @ S ''e: '' @ py_str_int (int compression_method)"

definition compressed_data_text :: pystr where
  "compressed_data_text = S ''Donn'' @ [233] @ S ''es compress'' @ [233] @ S ''es''"

definition decompress_error_text :: pystr where
  "decompress_error_text = S ''Erreur d'' @ [233] @ S ''compression/parsing: ''"

text \<open>
  One turn of the loop. The outer \<open>except\<close> of the source (key
  \<open>PNG_zTXt_{keyword}_error\<close>) has no statement that can raise in its reach: the
  inner \<open>try\<close> blocks catch every exception of their bodies.
\<close>

definition ztxt_chunk :: "stdlib \<Rightarrow> pybytes \<Rightarrow> metadata \<Rightarrow> metadata" where
  "ztxt_chunk L chunk metadata =
     (case find_null chunk of
        None \<Rightarrow> metadata
      | Some null_pos \<Rightarrow>
          (let keyword = utf8_ignore L (take null_pos chunk)
           in if is_ai_keyword keyword then
                (case read_ztxt L chunk null_pos of
                   ZParsed parsed_metadata \<Rightarrow> metadata(ai_key \<mapsto> Parsed parsed_metadata)
                 | ZUnsupported m \<Rightarrow>
                     metadata(S ''PNG_zTXt_'' @ keyword \<mapsto> Text (unsupported_compression m))
                 | ZError e \<Rightarrow>
                     metadata(S ''PNG_zTXt_'' @ keyword \<mapsto> Text (S ''Error parsing JSON: '' @ e)))
              else if keyword = S ''metadata'' then
                (case read_ztxt L chunk null_pos of
                   ZParsed parsed_metadata \<Rightarrow> metadata(ai_key \<mapsto> Parsed parsed_metadata)
                 | ZUnsupported m \<Rightarrow>
                     metadata(S ''PNG_zTXt_'' @ keyword \<mapsto> Text (unsupported_compression m))
                 | ZError e \<Rightarrow>
                     metadata(S ''PNG_zTXt_'' @ keyword \<mapsto> Text (decompress_error_text @ e)))
              else metadata(S ''PNG_zTXt_'' @ keyword \<mapsto> Text compressed_data_text)))"

subsection \<open>The \<open>iTXt\<close> loop\<close>

definition itxt_chunk :: "stdlib \<Rightarrow> pybytes \<Rightarrow> metadata \<Rightarrow> metadata" where
  "itxt_chunk L chunk metadata =
     (case find_null chunk of
        None \<Rightarrow> metadata
      | Some null_pos \<Rightarrow>
          (let keyword = utf8_ignore L (take null_pos chunk)
           in case find_null_from chunk (null_pos + 1) of
                None \<Rightarrow> metadata
              | Some text_start \<Rightarrow>
                  metadata(S ''PNG_iTXt_'' @ keyword
                    \<mapsto> Text (utf8_ignore L (drop (text_start + 1) chunk)))))"

subsection \<open>The PNG branch\<close>

text \<open>
  The three loops, one after the other, over the chunks the patterns find. Reading the
  file is inside the \<open>try\<close>: when \<open>open\<close> or \<open>read\<close> raises, the text of the
  exception is stored and no chunk is looked at.
\<close>

definition scan_png :: "stdlib \<Rightarrow> pybytes \<Rightarrow> metadata \<Rightarrow> metadata" where
  "scan_png L data metadata =
     (let m1 = foldl (\<lambda>m chunk. text_chunk L chunk m) metadata (png_chunks (S ''tEXt'') data);
          m2 = foldl (\<lambda>m chunk. ztxt_chunk L chunk m) m1 (png_chunks (S ''zTXt'') data)
      in foldl (\<lambda>m chunk. itxt_chunk L chunk m) m2 (png_chunks (S ''iTXt'') data))"

definition extract_png :: "stdlib \<Rightarrow> pystr + pybytes \<Rightarrow> metadata \<Rightarrow> metadata" where
  "extract_png L file metadata =
     (case file of
        Inl e \<Rightarrow> metadata(S ''Erreur extraction PNG'' \<mapsto> Text e)
      | Inr data \<Rightarrow> scan_png L data metadata)"

subsection \<open>The JPEG branch\<close>

definition jpeg_patterns :: "(pybytes \<times> pystr) list" where
  "jpeg_patterns =
     [(S ''prompt'', S ''Prompt''), (S ''negative_prompt'', S ''Negative Prompt''),
      (S ''seed'', S ''Seed''), (S ''steps'', S ''Steps''), (S ''cfg'', S ''CFG''),
      (S ''sampler'', S ''Sampler''), (S ''model'', S ''Model''),
      (S ''stable diffusion'', S ''Stable Diffusion''), (S ''comfyui'', S ''ComfyUI''),
      (S ''parameters'', S ''Parameters''), (S ''comment'', S ''Comment''),
      (S ''description'', S ''Description''), (S ''software'', S ''Software''),
      (S ''artist'', S ''Artist''), (S ''copyright'', S ''Copyright'')]"

text \<open>\<open>bytes.lower()\<close> changes the ASCII capitals only.\<close>

definition bytes_lower :: "pybytes \<Rightarrow> pybytes" where
  "bytes_lower bs = map (\<lambda>b. if 65 \<le> b \<and> b \<le> 90 then b + 32 else b) bs"

text \<open>\<open>data.find(pattern)\<close>, \<open>None\<close> for \<open>-1\<close>.\<close>

fun find_sub :: "pybytes \<Rightarrow> pybytes \<Rightarrow> nat option" where
  "find_sub pattern [] = (if pattern = [] then Some 0 else None)"
| "find_sub pattern (b # bs) =
     (if starts_with pattern (b # bs) then Some 0 else map_option Suc (find_sub pattern bs))"

text \<open>
  \<^verbatim>\<open>
  for pattern, label in patterns:
      if pattern in data.lower():
          pos = data.lower().find(pattern)
          if pos != -1:
              start = max(0, pos - 50)
              end = min(len(data), pos + 100)
              context = data[start:end].decode('utf-8', errors='ignore')
              metadata[f"JPEG_Trouve_{label}"] = context
  \<close>
\<close>

definition jpeg_pattern :: "stdlib \<Rightarrow> pybytes \<Rightarrow> metadata \<Rightarrow> pybytes \<times> pystr \<Rightarrow> metadata" where
  "jpeg_pattern L data metadata pl =
     (case find_sub (fst pl) (bytes_lower data) of
        None \<Rightarrow> metadata
      | Some pos \<Rightarrow>
          (let start = pos - 50;
               end' = min (length data) (pos + 100);
               context = utf8_ignore L (take (end' - start) (drop start data))
           in metadata(S ''JPEG_Trouv'' @ [233] @ S ''_'' @ snd pl \<mapsto> Text context)))"

text \<open>
  After the loop over the patterns the source goes on with
  \<^verbatim>\<open>
  exif_sections = re.findall(b'Exif(.*?)(?=Exif|JFIF|EOI)', data, re.DOTALL)
  \<close>
  The only \<open>import re\<close> of the function stands in the PNG branch, which makes \<open>re\<close>
  a local name of the function that is still unbound here: the call raises
  \<open>UnboundLocalError\<close> for every JPEG file that could be read, the loop over the
  sections never runs, and the \<open>except\<close> of the branch stores the text of the
  exception. The entries of the patterns are in the dictionary by then.
\<close>

definition extract_jpeg :: "stdlib \<Rightarrow> pystr + pybytes \<Rightarrow> metadata \<Rightarrow> metadata" where
  "extract_jpeg L file metadata =
     (case file of
        Inl e \<Rightarrow> metadata(S ''Erreur extraction JPEG'' \<mapsto> Text e)
      | Inr data \<Rightarrow>
          (foldl (jpeg_pattern L data) metadata jpeg_patterns)
            (S ''Erreur extraction JPEG'' \<mapsto> Text (unbound_local_re L)))"

subsection \<open>The dictionary of the reader\<close>

text \<open>
  What the code learns about the chosen file from Qt and the file system: the pixmap
  (\<open>None\<close> when \<open>isNull()\<close>), the \<open>QImage\<close> (\<open>None\<close> when \<open>isNull()\<close>) with its
  depth and the name of its format (\<open>None\<close> when asking for it raises), the parts of
  the path, the size as the f-string prints it, and the bytes of the file (\<open>Inl\<close>
  when reading raises). With the inner handlers in place, no statement in the reach of
  the outermost \<open>except\<close> (key \<open>Erreur generale\<close>) can raise.
\<close>

record qimage =
  depth :: nat
  format_name :: "pystr option"

record image_file =
  pixmap :: "(nat \<times> nat) option"
  qimage :: "qimage option"
  file_name :: pystr
  parent :: pystr
  size_kb :: pystr
  suffix :: pystr
  contents :: "pystr + pybytes"

definition basic_metadata :: "stdlib \<Rightarrow> image_file \<Rightarrow> nat \<Rightarrow> nat \<Rightarrow> metadata" where
  "basic_metadata L img w h =
     [S ''Nom du fichier'' \<mapsto> Text (file_name img),
      S ''Chemin'' \<mapsto> Text (parent img),
      S ''Taille du fichier'' \<mapsto> Text (size_kb img @ S '' KB''),
      S ''Dimensions'' \<mapsto> Text (py_str_int (int w) @ S '' x '' @ py_str_int (int h) @ S '' pixels''),
      S ''Format'' \<mapsto> Text (if suffix img \<noteq> [] then drop 1 (str_upper L (suffix img))
                              else S ''Inconnu'')]"

definition extract_metadata :: "stdlib \<Rightarrow> image_file \<Rightarrow> metadata \<Rightarrow> metadata" where
  "extract_metadata L img metadata =
     (case qimage img of
        None \<Rightarrow> metadata
      | Some q \<Rightarrow>
          (let m1 = metadata(S ''Profondeur de couleur'' \<mapsto> Text (py_str_int (int (depth q)) @ S '' bits''));
               m2 = m1(S ''Format Qt'' \<mapsto> Text (case format_name q of
                                                   Some n \<Rightarrow> n | None \<Rightarrow> S ''Inconnu''))
           in if str_lower L (suffix img) = S ''.png'' then extract_png L (contents img) m2
              else if str_lower L (suffix img) \<in> set [S ''.jpg'', S ''.jpeg'']
                then extract_jpeg L (contents img) m2
              else m2))"

text \<open>
  The first half of \<open>_load_external_image\<close>, lines 1559 to 1783: the dictionary
  \<open>metadata\<close> as it stands when the function starts to build its dialog, or
  \<open>None\<close> when the pixmap is null and the function returns after its warning. This
  is the dictionary for a file whose \<open>stat()\<close> succeeds; the whole function, with
  \<open>stat()\<close> and the dialog, is \<open>show_external_image\<close> below.
\<close>

definition load_external_image :: "stdlib \<Rightarrow> image_file \<Rightarrow> metadata option" where
  "load_external_image L img =
     (case pixmap img of
        None \<Rightarrow> None
      | Some (w, h) \<Rightarrow> Some (extract_metadata L img (basic_metadata L img w h)))"

subsection \<open>The dialog of the reader\<close>

text \<open>
  The second half of \<open>_load_external_image\<close> (from line 1785) builds the text of the
  dialog from the dictionary. None of it stands in a \<open>try\<close>, except the branch for
  keys that start with \<open>AI_prompt\<close>; an exception of a built-in operation leaves the
  function. The operations are those of Python on the values \<open>json.loads\<close> returns.
\<close>

datatype py_error =
  TypeError | AttributeError | KeyError | ValueError | OverflowError | FileSystemError

text \<open>
  \<open>py_str\<close> is \<open>str(v)\<close>, which the f-strings apply to a value, and \<open>fixed_1f\<close>
  the format \<open>.1f\<close> of a number (\<open>OverflowError\<close> for an integer too large for a
  float): parameters of the model.
\<close>

record builtins =
  py_str :: "json \<Rightarrow> pystr"
  fixed_1f :: "rat \<Rightarrow> py_error + pystr"

definition and_then :: "py_error + 'a \<Rightarrow> ('a \<Rightarrow> py_error + 'b) \<Rightarrow> py_error + 'b" where
  "and_then r f = (case r of Inl e \<Rightarrow> Inl e | Inr x \<Rightarrow> f x)"

text \<open>
  \<open>key in v\<close>: the keys of a dict, the elements of a list, the substrings of a str;
  \<open>TypeError\<close> for a number, a truth value and \<open>None\<close>.
\<close>

fun py_in :: "pystr \<Rightarrow> json \<Rightarrow> py_error + bool" where
  "py_in k (JObj ms) = Inr (k \<in> fst ` set ms)"
| "py_in k (JArr xs) = Inr (JStr k \<in> set xs)"
| "py_in k (JStr s) = Inr (find_sub k s \<noteq> None)"
| "py_in k v = Inl TypeError"

text \<open>\<open>v[key]\<close> with a str as key: only a dict has such items.\<close>

fun py_getitem :: "json \<Rightarrow> pystr \<Rightarrow> py_error + json" where
  "py_getitem (JObj ms) k = (case map_of ms k of None \<Rightarrow> Inl KeyError | Some v \<Rightarrow> Inr v)"
| "py_getitem v k = Inl TypeError"

text \<open>\<open>v.get(key, default)\<close> and \<open>v.items()\<close>: methods of a dict only.\<close>

fun py_get :: "json \<Rightarrow> pystr \<Rightarrow> json \<Rightarrow> py_error + json" where
  "py_get (JObj ms) k dflt = Inr (dict_get ms k dflt)"
| "py_get v k dflt = Inl AttributeError"

fun py_items :: "json \<Rightarrow> py_error + (pystr \<times> json) list" where
  "py_items (JObj ms) = Inr ms"
| "py_items v = Inl AttributeError"

text \<open>The truth value of a value in a condition.\<close>

fun truthy :: "json \<Rightarrow> bool" where
  "truthy JNull = False"
| "truthy (JBool b) = b"
| "truthy (JInt i) = (i \<noteq> 0)"
| "truthy (JFloat r) = (r \<noteq> 0)"
| "truthy (JStr s) = (s \<noteq> [])"
| "truthy (JArr xs) = (xs \<noteq> [])"
| "truthy (JObj ms) = (ms \<noteq> [])"

text \<open>
  \<open>f"{v * 100:.1f}"\<close>: a number is multiplied and formatted; a str is repeated and
  then refuses the format (\<open>ValueError\<close>); \<open>None\<close> and a dict refuse the product,
  a list the format (\<open>TypeError\<close>).
\<close>

fun percent_1f :: "builtins \<Rightarrow> json \<Rightarrow> py_error + pystr" where
  "percent_1f B (JInt i) = fixed_1f B (of_int (i * 100))"
| "percent_1f B (JFloat r) = fixed_1f B (r * 100)"
| "percent_1f B (JBool b) = fixed_1f B (if b then 100 else 0)"
| "percent_1f B (JStr s) = Inl ValueError"
| "percent_1f B v = Inl TypeError"

text \<open>
  \<open>formatted_lines\<close> is a list of Python values: the code appends texts of its own and
  also values of the record as they are. A text is a \<open>JStr\<close>.

  \<^verbatim>\<open>
  if "prompt" in ai_metadata:
      formatted_lines.append("PROMPT:")
      formatted_lines.append(ai_metadata["prompt"])
      formatted_lines.append("")
  \<close>
\<close>

definition show_prompt :: "json \<Rightarrow> json list \<Rightarrow> py_error + json list" where
  "show_prompt ai lines =
     and_then (py_in (S ''prompt'') ai) (\<lambda>present.
       if present then
         and_then (py_getitem ai (S ''prompt'')) (\<lambda>v.
           Inr (lines @ [JStr (S ''PROMPT:''), v, JStr []]))
       else Inr lines)"

text \<open>
  \<^verbatim>\<open>
  if "style" in ai_metadata and ai_metadata["style"]:
      formatted_lines.append("STYLE:")
      formatted_lines.append(ai_metadata["style"])
      formatted_lines.append("")
  \<close>
  and the same for \<open>negative_prompt\<close>, \<open>checkpoint\<close> and \<open>sampler\<close>.
\<close>

definition show_value :: "pystr \<Rightarrow> pystr \<Rightarrow> json \<Rightarrow> json list \<Rightarrow> py_error + json list" where
  "show_value title key ai lines =
     and_then (py_in key ai) (\<lambda>present.
       if present then
         and_then (py_getitem ai key) (\<lambda>v.
           if truthy v then Inr (lines @ [JStr title, v, JStr []]) else Inr lines)
       else Inr lines)"

text \<open>
  \<^verbatim>\<open>
  if "seed" in ai_metadata:
      formatted_lines.append("PARAMETERS:")
      formatted_lines.append(f"Seed: {ai_metadata['seed']}")
      if "strength" in ai_metadata:
          formatted_lines.append(f"Strength: {ai_metadata['strength'] * 100:.1f}%")
      formatted_lines.append("")
  \<close>
\<close>

definition show_parameters :: "builtins \<Rightarrow> json \<Rightarrow> json list \<Rightarrow> py_error + json list" where
  "show_parameters B ai lines =
     and_then (py_in (S ''seed'') ai) (\<lambda>present.
       if present then
         and_then (py_getitem ai (S ''seed'')) (\<lambda>seed.
           and_then (py_in (S ''strength'') ai) (\<lambda>has_strength.
             if has_strength then
               and_then (py_getitem ai (S ''strength'')) (\<lambda>v.
                 and_then (percent_1f B v) (\<lambda>percent.
                   Inr (lines @ [JStr (S ''PARAMETERS:''), JStr (S ''Seed: '' @ py_str B seed),
                                 JStr (S ''Strength: '' @ percent @ S ''%''), JStr []])))
             else
               Inr (lines @ [JStr (S ''PARAMETERS:''), JStr (S ''Seed: '' @ py_str B seed),
                             JStr []])))
       else Inr lines)"

text \<open>
  \<^verbatim>\<open>
  if "loras" in ai_metadata and ai_metadata["loras"]:
      formatted_lines.append("LORAS:")
      if isinstance(ai_metadata["loras"], list):
          for lora in ai_metadata["loras"]:
              if isinstance(lora, dict):
                  name = lora.get("name", "Unknown")
                  strength = lora.get("strength", 1.0)
                  formatted_lines.append(f"  * {name} (force: {strength})")
      else:
          formatted_lines.append(str(ai_metadata["loras"]))
      formatted_lines.append("")
  \<close>
  (the source has a bullet, the code point 8226, where the star stands).
\<close>

fun lora_lines :: "builtins \<Rightarrow> json \<Rightarrow> json list" where
  "lora_lines B (JObj ms) =
     [JStr (S ''  '' @ [8226] @ S '' '' @ py_str B (dict_get ms (S ''name'') (JStr (S ''Unknown'')))
        @ S '' (force: '' @ py_str B (dict_get ms (S ''strength'') (JFloat 1)) @ S '')'')]"
| "lora_lines B v = []"

definition show_loras :: "builtins \<Rightarrow> json \<Rightarrow> json list \<Rightarrow> py_error + json list" where
  "show_loras B ai lines =
     and_then (py_in (S ''loras'') ai) (\<lambda>present.
       if present then
         and_then (py_getitem ai (S ''loras'')) (\<lambda>v.
           if truthy v then
             Inr (lines @ [JStr (S ''LORAS:'')]
                    @ (case v of
                         JArr loras \<Rightarrow> concat (map (lora_lines B) loras)
                       | _ \<Rightarrow> [JStr (py_str B v)])
                    @ [JStr []])
           else Inr lines)
       else Inr lines)"

text \<open>
  \<^verbatim>\<open>
  if "generation_type" in ai_metadata:
      formatted_lines.append("INFORMATION:")
      formatted_lines.append(f"Type: {ai_metadata['generation_type']}")
      if "job_kind" in ai_metadata:
          formatted_lines.append(f"Job: {ai_metadata['job_kind']}")
      if "timestamp" in ai_metadata:
          formatted_lines.append(f"Generated: {ai_metadata['timestamp']}")
      if "batch_index" in ai_metadata:
          formatted_lines.append(f"Index: {ai_metadata['batch_index']}")
      if "total_images" in ai_metadata:
          formatted_lines.append(f"Total: {ai_metadata['total_images']} image(s)")
      formatted_lines.append("")
  \<close>
\<close>

definition optional_line ::
  "builtins \<Rightarrow> pystr \<Rightarrow> pystr \<Rightarrow> pystr \<Rightarrow> json \<Rightarrow> json list \<Rightarrow> py_error + json list" where
  "optional_line B before key after ai lines =
     and_then (py_in key ai) (\<lambda>present.
       if present then
         and_then (py_getitem ai key) (\<lambda>v. Inr (lines @ [JStr (before @ py_str B v @ after)]))
       else Inr lines)"

definition show_information :: "builtins \<Rightarrow> json \<Rightarrow> json list \<Rightarrow> py_error + json list" where
  "show_information B ai lines =
     and_then (py_in (S ''generation_type'') ai) (\<lambda>present.
       if present then
         and_then (py_getitem ai (S ''generation_type'')) (\<lambda>v.
         and_then (optional_line B (S ''Job: '') (S ''job_kind'') [] ai
                     (lines @ [JStr (S ''INFORMATION:''), JStr (S ''Type: '' @ py_str B v)]))
           (\<lambda>l1.
         and_then (optional_line B (S ''Generated: '') (S ''timestamp'') [] ai l1) (\<lambda>l2.
         and_then (optional_line B (S ''Index: '') (S ''batch_index'') [] ai l2) (\<lambda>l3.
         and_then (optional_line B (S ''Total: '') (S ''total_images'') (S '' image(s)'') ai l3)
           (\<lambda>l4. Inr (l4 @ [JStr []]))))))
       else Inr lines)"

text \<open>
  \<^verbatim>\<open>
  other_params = {k: v for k, v in ai_metadata.items()
                  if k.startswith("param_") and k not in ["prompt", "negative_prompt",
                                                           "style", "checkpoint", "sampler", "loras"]}
  if other_params:
      formatted_lines.append("OTHER PARAMETERS:")
      for key, value in other_params.items():
          param_name = key.replace("param_", "")
          formatted_lines.append(f"  * {param_name}: {value}")
      formatted_lines.append("")
  \<close>
  \<open>without_param\<close> is \<open>key.replace("param_", "")\<close>: every occurrence goes, from
  left to right.
\<close>

function without_param :: "pystr \<Rightarrow> pystr" where
  "without_param [] = []"
| "without_param (c # cs) =
     (if starts_with (S ''param_'') (c # cs) then without_param (drop 5 cs)
      else c # without_param cs)"
  by pat_completeness auto
termination
  by (relation "measure length") auto

definition show_other_parameters :: "builtins \<Rightarrow> json \<Rightarrow> json list \<Rightarrow> py_error + json list" where
  "show_other_parameters B ai lines =
     and_then (py_items ai) (\<lambda>items.
       (let other_params =
              filter (\<lambda>kv. starts_with (S ''param_'') (fst kv)
                         \<and> fst kv \<notin> set [S ''prompt'', S ''negative_prompt'', S ''style'',
                                           S ''checkpoint'', S ''sampler'', S ''loras'']) items
        in if other_params \<noteq> [] then
             Inr (lines @ [JStr (S ''OTHER PARAMETERS:'')]
                    @ map (\<lambda>kv. JStr (S ''  '' @ [8226] @ S '' '' @ without_param (fst kv)
                                        @ S '': '' @ py_str B (snd kv))) other_params
                    @ [JStr []])
           else Inr lines))"

text \<open>
  \<^verbatim>\<open>
  if ai_metadata.get("truncated", False):
      formatted_lines.append("!  TRUNCATED METADATA (too large)")
      formatted_lines.append("")
  \<close>
  (the source has a warning sign, the code points 9888 and 65039, where the exclamation
  mark stands).
\<close>

definition show_truncated :: "json \<Rightarrow> json list \<Rightarrow> py_error + json list" where
  "show_truncated ai lines =
     and_then (py_get ai (S ''truncated'') (JBool False)) (\<lambda>v.
       if truthy v then
         Inr (lines @ [JStr ([9888, 65039] @ S ''  TRUNCATED METADATA (too large)''), JStr []])
       else Inr lines)"

text \<open>The lines for the record under \<open>AI_METADATA_JSON\<close>, lines 1822 to 1899.\<close>

definition record_lines :: "builtins \<Rightarrow> json \<Rightarrow> py_error + json list" where
  "record_lines B ai =
     and_then (show_prompt ai [JStr (S ''=== AI METADATA (Krita Extension) ===''), JStr []])
       (\<lambda>l1.
     and_then (show_value (S ''NEGATIVE PROMPT:'') (S ''negative_prompt'') ai l1) (\<lambda>l2.
     and_then (show_parameters B ai l2) (\<lambda>l3.
     and_then (show_value (S ''STYLE:'') (S ''style'') ai l3) (\<lambda>l4.
     and_then (show_value (S ''CHECKPOINT:'') (S ''checkpoint'') ai l4) (\<lambda>l5.
     and_then (show_value (S ''SAMPLER:'') (S ''sampler'') ai l5) (\<lambda>l6.
     and_then (show_loras B ai l6) (\<lambda>l7.
     and_then (show_information B ai l7) (\<lambda>l8.
     and_then (show_other_parameters B ai l8) (\<lambda>l9.
     show_truncated ai l9)))))))))"

text \<open>
  \<open>"\n".join(formatted_lines)\<close> raises \<open>TypeError\<close> when an item of the list is not
  a str.
\<close>

fun line_text :: "json \<Rightarrow> pystr option" where
  "line_text (JStr s) = Some s"
| "line_text v = None"

definition join_lines :: "json list \<Rightarrow> py_error + pystr list" where
  "join_lines lines =
     (if list_all (\<lambda>v. line_text v \<noteq> None) lines then Inr (List.map_filter line_text lines)
      else Inl TypeError)"

text \<open>
  After the record, the loop over \<open>metadata.items()\<close> appends one line
  \<open>f"{k}: {v}"\<close> for each entry, then come the closing lines, and the text is joined.
  The loop has a second branch, for a key that starts with \<open>AI_prompt\<close> and a str as
  value; the reader writes no such key (\<open>reader_key\<close> lists the keys it can write), so
  that branch is never entered on its dictionary and stands outside the model. The order
  of the entries of a dict is not kept by a map: their lines are a set here.
\<close>

definition reader_key :: "pystr \<Rightarrow> bool" where
  "reader_key k =
     (k = S ''Nom du fichier'' \<or> k = S ''Chemin'' \<or> k = S ''Taille du fichier''
      \<or> k = S ''Dimensions'' \<or> k = S ''Format'' \<or> k = S ''Profondeur de couleur''
      \<or> k = S ''Format Qt'' \<or> k = S ''AI_METADATA_JSON''
      \<or> starts_with (S ''PNG_tEXt_'') k \<or> starts_with (S ''PNG_zTXt_'') k
      \<or> starts_with (S ''PNG_iTXt_'') k \<or> starts_with (S ''JPEG_Trouv'') k
      \<or> k = S ''Erreur extraction PNG'' \<or> k = S ''Erreur extraction JPEG'')"

definition value_text :: "builtins \<Rightarrow> mval \<Rightarrow> pystr" where
  "value_text B v = (case v of Text t \<Rightarrow> t | Parsed j \<Rightarrow> py_str B j)"

definition mval_json :: "mval \<Rightarrow> json" where
  "mval_json v = (case v of Text t \<Rightarrow> JStr t | Parsed j \<Rightarrow> j)"

record dialog_text =
  record_part :: "pystr list"
  entry_part :: "pystr set"
  closing_part :: "pystr list"

definition closing_lines :: "bool \<Rightarrow> pystr list" where
  "closing_lines has_ai_metadata =
     (if has_ai_metadata then [[], S ''=== DETECTED AI METADATA ==='', []]
      else [[], S ''=== AVAILABLE METADATA ==='', [],
            S ''No AI generation metadata found, but here are all available metadata:'', []])"

definition metadata_dialog :: "builtins \<Rightarrow> metadata \<Rightarrow> py_error + dialog_text" where
  "metadata_dialog B metadata =
     (if metadata = Map.empty then
        Inr \<lparr>record_part = [S ''No metadata found.''], entry_part = {}, closing_part = []\<rparr>
      else
        and_then (case metadata ai_key of
                    None \<Rightarrow> Inr []
                  | Some v \<Rightarrow> record_lines B (mval_json v)) (\<lambda>lines.
        and_then (join_lines lines) (\<lambda>texts.
          Inr \<lparr>record_part = texts,
               entry_part = {k @ S '': '' @ value_text B v | k v. metadata k = Some v},
               closing_part = closing_lines (metadata ai_key \<noteq> None)\<rparr>)))"

text \<open>
  The whole of \<open>_load_external_image\<close> for a file the user has chosen: the warning and
  the return for a null pixmap; \<open>file_info.stat()\<close>, which stands before the first
  \<open>try\<close> and whose exception leaves the function; the dictionary; the dialog.
\<close>

datatype outcome = Warned | Raised py_error | Shown dialog_text

definition show_external_image :: "stdlib \<Rightarrow> builtins \<Rightarrow> bool \<Rightarrow> image_file \<Rightarrow> outcome" where
  "show_external_image L B stat_raises img =
     (case pixmap img of
        None \<Rightarrow> Warned
      | Some wh \<Rightarrow>
          if stat_raises then Raised FileSystemError
          else (case load_external_image L img of
                  None \<Rightarrow> Warned
                | Some metadata \<Rightarrow>
                    (case metadata_dialog B metadata of
                       Inl e \<Rightarrow> Raised e
                     | Inr d \<Rightarrow> Shown d)))"

subsection \<open>The records that parse\<close>

text \<open>
  The chunks under one of the four keywords whose JSON parses, in the order in which the
  loops meet them: the \<open>tEXt\<close> chunks of the file, then its \<open>zTXt\<close> chunks.
\<close>

definition is_record_keyword :: "pystr \<Rightarrow> bool" where
  "is_record_keyword keyword = (is_ai_keyword keyword \<or> keyword = S ''metadata'')"

definition text_candidate :: "stdlib \<Rightarrow> pybytes \<Rightarrow> json option" where
  "text_candidate L chunk =
     (case find_null chunk of
        None \<Rightarrow> None
      | Some null_pos \<Rightarrow>
          if is_record_keyword (utf8_ignore L (take null_pos chunk)) then
            (case json_loads L (strip (utf8_ignore L (drop (null_pos + 1) chunk))) of
               Inl e \<Rightarrow> None
             | Inr parsed_metadata \<Rightarrow> Some parsed_metadata)
          else None)"

definition ztxt_candidate :: "stdlib \<Rightarrow> pybytes \<Rightarrow> json option" where
  "ztxt_candidate L chunk =
     (case find_null chunk of
        None \<Rightarrow> None
      | Some null_pos \<Rightarrow>
          if is_record_keyword (utf8_ignore L (take null_pos chunk)) then
            (case read_ztxt L chunk null_pos of
               ZParsed parsed_metadata \<Rightarrow> Some parsed_metadata
             | ZUnsupported m \<Rightarrow> None
             | ZError e \<Rightarrow> None)
          else None)"

definition parsed_candidates :: "stdlib \<Rightarrow> pybytes \<Rightarrow> json list" where
  "parsed_candidates L data =
     List.map_filter (text_candidate L) (png_chunks (S ''tEXt'') data)
       @ List.map_filter (ztxt_candidate L) (png_chunks (S ''zTXt'') data)"

subsection \<open>The record after a run of candidates\<close>

text \<open>
  \<open>latest old ps\<close> is the entry under \<open>AI_METADATA_JSON\<close> after the records
  \<open>ps\<close> were stored there one after the other, \<open>old\<close> being the entry before;
  \<open>chunk_keyword\<close> is the keyword the loops read off a chunk.
\<close>

definition latest :: "mval option \<Rightarrow> json list \<Rightarrow> mval option" where
  "latest old ps = (if ps = [] then old else Some (Parsed (last ps)))"


section \<open>Example files\<close>

text \<open>
  PNG files of one grey pixel, byte for byte: the signature, \<open>IHDR\<close>, the text chunks
  of the example, \<open>IDAT\<close> and \<open>IEND\<close>. A chunk is its length, its type, its data
  and the CRC of type and data.
\<close>

definition be32 :: "nat \<Rightarrow> pybytes" where
  "be32 n = [n div 16777216 mod 256, n div 65536 mod 256, n div 256 mod 256, n mod 256]"

definition png_chunk :: "pybytes \<Rightarrow> pybytes \<Rightarrow> pybytes \<Rightarrow> pybytes" where
  "png_chunk typ data crc = be32 (length data) @ typ @ data @ crc"

definition png_signature :: pybytes where
  "png_signature = [137, 80, 78, 71, 13, 10, 26, 10]"

definition ihdr_chunk :: pybytes where
  "ihdr_chunk = png_chunk (S ''IHDR'') [0, 0, 0, 1, 0, 0, 0, 1, 8, 0, 0, 0, 0] [58, 126, 155, 85]"

definition idat_chunk :: pybytes where
  "idat_chunk = png_chunk (S ''IDAT'') [120, 156, 99, 96, 0, 0, 0, 2, 0, 1] [72, 175, 164, 113]"

definition iend_chunk :: pybytes where
  "iend_chunk = png_chunk (S ''IEND'') [] [174, 66, 96, 130]"

text \<open>
  The payload of the record of a one-image diffusion job with the prompt \<open>a cat\<close>, as
  the save code computes it (226 characters, all ASCII), under the keyword
  \<open>metadata\<close> in a \<open>tEXt\<close> chunk.
\<close>

definition cat_payload :: pystr where
  "cat_payload = metadata_json (\<lambda>r. S ''1.0'') (record_with_prompt (S ''a cat''))"

definition saved_png :: pybytes where
  "saved_png =
     png_signature @ ihdr_chunk
       @ png_chunk (S ''tEXt'') (S ''metadata'' @ [0] @ cat_payload) [121, 52, 39, 70]
       @ idat_chunk @ iend_chunk"

text \<open>
  Two \<open>zTXt\<close> chunks, compression method 0: \<open>{"seed":1}\<close> under the keyword
  \<open>AI\<close>, then \<open>{"seed":2}\<close> under the keyword \<open>metadata\<close>.
\<close>

definition deflated_seed_1 :: pybytes where
  "deflated_seed_1 = [120, 156, 171, 86, 42, 78, 77, 77, 81, 178, 50, 172, 5, 0, 18, 204, 3, 73]"

definition deflated_seed_2 :: pybytes where
  "deflated_seed_2 = [120, 156, 171, 86, 42, 78, 77, 77, 81, 178, 50, 170, 5, 0, 18, 206, 3, 74]"

definition two_records_png :: pybytes where
  "two_records_png =
     png_signature @ ihdr_chunk
       @ png_chunk (S ''zTXt'') (S ''AI'' @ [0, 0] @ deflated_seed_1) [217, 13, 218, 225]
       @ png_chunk (S ''zTXt'') (S ''metadata'' @ [0, 0] @ deflated_seed_2) [0, 254, 153, 11]
       @ idat_chunk @ iend_chunk"

text \<open>One \<open>zTXt\<close> chunk under the keyword \<open>AI\<close> with the compression method 1.\<close>

definition method_1_png :: pybytes where
  "method_1_png =
     png_signature @ ihdr_chunk
       @ png_chunk (S ''zTXt'') (S ''AI'' @ [0, 1] @ deflated_seed_1) [14, 239, 90, 185]
       @ idat_chunk @ iend_chunk"

text \<open>One \<open>zTXt\<close> chunk under the keyword \<open>metadata\<close> whose JSON text is \<open>42\<close>.\<close>

definition deflated_42 :: pybytes where
  "deflated_42 = [120, 156, 51, 49, 2, 0, 0, 156, 0, 103]"

definition number_png :: pybytes where
  "number_png =
     png_signature @ ihdr_chunk
       @ png_chunk (S ''zTXt'') (S ''metadata'' @ [0, 0] @ deflated_42) [129, 1, 138, 149]
       @ idat_chunk @ iend_chunk"

definition seed_record :: "int \<Rightarrow> json" where
  "seed_record n = JObj [(S ''seed'', JInt n)]"

text \<open>
  Python's library at the arguments it gets for these files. Every byte string that is
  decoded there is free of multi-byte sequences, so decoding with \<open>errors='ignore'\<close>
  drops the bytes from 128 on and keeps the rest; \<open>json.loads\<close> and
  \<open>zlib.decompress\<close> are given by their results at the texts and streams that
  occur (\<open>zlib.decompress\<close> stops at the end of the stream and ignores the CRC and
  the length field behind it); \<open>upper\<close> and \<open>lower\<close> are those of ASCII text; the
  text of the \<open>UnboundLocalError\<close> is the one of Python 3.10 and before.
\<close>

definition observed_loads :: "pystr \<Rightarrow> pystr + json" where
  "observed_loads s =
     (if s = cat_payload @ [121, 52, 39, 70, 0, 0, 0]
        then Inl (S ''Extra data: line 1 column 227 (char 226)'')
      else if s = dumps (\<lambda>r. S ''1.0'') (seed_record 1) then Inr (seed_record 1)
      else if s = dumps (\<lambda>r. S ''1.0'') (seed_record 2) then Inr (seed_record 2)
      else if s = S ''42'' then Inr (JInt 42)
      else Inl (S ''Expecting value: line 1 column 1 (char 0)''))"

definition observed_decompress :: "pybytes \<Rightarrow> pystr + pybytes" where
  "observed_decompress bs =
     (if bs = deflated_seed_1 @ [217, 13, 218, 225] @ be32 28
        then Inr (dumps (\<lambda>r. S ''1.0'') (seed_record 1))
      else if bs = deflated_seed_2 @ [0, 254, 153, 11] @ be32 10
        then Inr (dumps (\<lambda>r. S ''1.0'') (seed_record 2))
      else if bs = deflated_42 @ [129, 1, 138, 149] @ be32 10 then Inr (S ''42'')
      else Inl (S ''Error -3 while decompressing data: incorrect header check''))"

definition observed_lib :: stdlib where
  "observed_lib =
     \<lparr>utf8_ignore = filter (\<lambda>b. b < 128),
      json_loads = observed_loads,
      zlib_decompress = observed_decompress,
      str_upper = map (\<lambda>c. if 97 \<le> c \<and> c \<le> 122 then c - 32 else c),
      str_lower = map (\<lambda>c. if 65 \<le> c \<and> c \<le> 90 then c + 32 else c),
      unbound_local_re =
        S ''local variable '' @ [39] @ S ''re'' @ [39] @ S '' referenced before assignment''\<rparr>"

definition png_file :: "pybytes \<Rightarrow> image_file" where
  "png_file data =
     \<lparr>pixmap = Some (1, 1),
      qimage = Some \<lparr>depth = 8, format_name = None\<rparr>,
      file_name = S ''cat.png'', parent = S ''/home/user'', size_kb = S ''0.3'',
      suffix = S ''.png'', contents = Inr data\<rparr>"

section \<open>Classification\<close>

text \<open>
  C3 (as stated): a diffusion job of strength 1.0 is labelled \<open>Generate\<close>. The code
  labels it \<open>ImgGenerate\<close>.
\<close>

theorem image_type_generate_counterexample:
  "image_type (diffusion_job 1) \<noteq> S ''Generate''"
  by (simp add: image_type_def is_refined_def diffusion_job_def S_def)

text \<open>
  C3 (amended): an upscaling job is labelled \<open>Upscale\<close> whatever its strength; any
  other job is labelled \<open>Refine\<close> when its strength is below 1.0 and \<open>ImgGenerate\<close>
  otherwise; the label is always one of \<open>ImgGenerate\<close>, \<open>Refine\<close>, \<open>Upscale\<close>.
\<close>

theorem image_type_classification:
  "(kind job = upscaling \<longrightarrow> image_type job = S ''Upscale'') \<and>
   (kind job \<noteq> upscaling \<and> strength (params job) = Some s \<and> s < 1
      \<longrightarrow> image_type job = S ''Refine'') \<and>
   (kind job \<noteq> upscaling \<and> strength (params job) = Some s \<and> \<not> s < 1
      \<longrightarrow> image_type job = S ''ImgGenerate'') \<and>
   image_type job \<in> {S ''ImgGenerate'', S ''Refine'', S ''Upscale''}"
  by (simp add: image_type_def is_refined_def)

theorem image_type_classification_witness:
  "kind (diffusion_job (1/2)) \<noteq> upscaling \<and>
   strength (params (diffusion_job (1/2))) = Some (1/2) \<and> (1/2 :: rat) < 1 \<and>
   image_type (diffusion_job (1/2)) = S ''Refine'' \<and>
   image_type ((diffusion_job (1/2))\<lparr>kind := upscaling\<rparr>) = S ''Upscale'' \<and>
   image_type (diffusion_job 1) = S ''ImgGenerate''"
  using image_type_classification [of "diffusion_job (1/2)" "1/2"]
    image_type_classification [of "(diffusion_job (1/2))\<lparr>kind := upscaling\<rparr>" "1/2"]
    image_type_classification [of "diffusion_job 1" 1]
  by (simp add: diffusion_job_def)

section \<open>Destination paths\<close>

lemma S_simps: "S [] = []" "S (c # cs) = of_char c # S cs"
  by (simp_all add: S_def)

lemma dec_digits_range: "d \<in> set (dec_digits n) \<Longrightarrow> 48 \<le> d \<and> d \<le> 57"
proof (induction n arbitrary: d rule: dec_digits.induct)
  case (1 n)
  show ?case
  proof (cases "n < 10")
    case True
    with "1.prems" show ?thesis by (simp add: dec_digits.simps [of n])
  next
    case False
    with "1.prems" "1.IH" show ?thesis
      by (auto simp: dec_digits.simps [of n]) 
  qed
qed


lemma undec_dec_digits: "undec (dec_digits n) = n"
proof (induction n rule: dec_digits.induct)
  case (1 n)
  show ?case
  proof (cases "n < 10")
    case True
    then show ?thesis by (simp add: dec_digits.simps [of n] undec_def)
  next
    case False
    with "1.IH" have "undec (dec_digits (n div 10)) = n div 10" by simp
    with False show ?thesis
      by (simp add: dec_digits.simps [of n] undec_def)
  qed
qed

lemma dec_digits_inj: "dec_digits m = dec_digits n \<Longrightarrow> m = n"
  by (metis undec_dec_digits)

lemma last_field:
  assumes "95 \<notin> set u"
  shows "takeWhile (\<lambda>c. c \<noteq> 95) (rev (x @ [95] @ u)) = rev u"
proof -
  have "takeWhile (\<lambda>c. c \<noteq> 95) (rev u @ 95 # rev x) = rev u @ takeWhile (\<lambda>c. c \<noteq> 95) (95 # rev x)"
    using assms by (intro takeWhile_append2) auto
  then show ?thesis by simp
qed

lemma index_suffix_no_underscore: "95 \<notin> set (dec_digits i @ S ''.png'')"
  using dec_digits_range [of 95 i] by (auto simp: S_simps)

lemma image_path_shape:
  "image_path h job tf it i w =
     (tf @ S ''/'' @ prompt_prefix job @ S ''_'' @ timestamp_ms h w @ S ''_'' @ it)
       @ [95] @ (dec_digits i @ S ''.png'')"
  by (simp add: image_path_def joinpath_def image_filename_def py_str_int_def S_simps)

lemma image_path_index:
  assumes "image_path h job tf it i w = image_path h job tf it j w'"
  shows "i = j"
proof -
  have "rev (dec_digits i @ S ''.png'') = rev (dec_digits j @ S ''.png'')"
    using arg_cong [OF assms [unfolded image_path_shape], of "\<lambda>p. takeWhile (\<lambda>c. c \<noteq> 95) (rev p)"]
    by (simp only: last_field [OF index_suffix_no_underscore])
  then have "dec_digits i = dec_digits j" by simp
  then show ?thesis by (rule dec_digits_inj)
qed

lemma save_trace_paths:
  "p \<in> snd ` set (save_trace h job tf it i imgs w) \<Longrightarrow>
     \<exists>k w'. i \<le> k \<and> p = image_path h job tf it k w'"
proof (induction imgs arbitrary: i w)
  case Nil
  then show ?case by simp
next
  case (Cons img imgs)
  from Cons.prems consider "p = image_path h job tf it i w"
    | "p \<in> snd ` set (save_trace h job tf it (Suc i) imgs (snd (save_image h job tf it i img w)))"
    by auto
  then show ?case
  proof cases
    case 1
    then show ?thesis by blast
  next
    case 2
    from Cons.IH [OF 2] obtain k w' where "Suc i \<le> k" "p = image_path h job tf it k w'" by blast
    then show ?thesis by (intro exI [of _ k] exI [of _ w']) simp
  qed
qed

lemma save_trace_length: "length (save_trace h job tf it i imgs w) = length imgs"
  by (induction imgs arbitrary: i w) simp_all

text \<open>
  C9: within one call of \<open>save_job_images\<close> the destination paths computed for the
  images are pairwise distinct, one per image, whatever the clock returns (also when every
  reading is the same): each file name ends in \<open>_{i}.png\<close> with the index \<open>i\<close> of
  the image, after the prompt prefix, the timestamp and the image type.
\<close>

theorem save_paths_distinct:
  "distinct (map snd (save_trace h job tf it i imgs w)) \<and>
   length (save_trace h job tf it i imgs w) = length imgs"
proof (induction imgs arbitrary: i w)
  case Nil
  show ?case by simp
next
  case (Cons img imgs)
  let ?w' = "snd (save_image h job tf it i img w)"
  have "image_path h job tf it i w \<notin> snd ` set (save_trace h job tf it (Suc i) imgs ?w')"
  proof
    assume "image_path h job tf it i w \<in> snd ` set (save_trace h job tf it (Suc i) imgs ?w')"
    from save_trace_paths [OF this] obtain k w' where
      "Suc i \<le> k" "image_path h job tf it i w = image_path h job tf it k w'" by blast
    then show False using image_path_index by fastforce
  qed
  with Cons.IH [of "Suc i" ?w'] show ?case by simp
qed

theorem save_paths_distinct_witness:
  "distinct (map snd (save_trace test_host (batch_job [0, 1, 2, 3, 4]) (S ''out/doc/Generate'')
      (S ''Generate'') 0 (results (batch_job [0, 1, 2, 3, 4])) empty_world)) \<and>
   length (save_trace test_host (batch_job [0, 1, 2, 3, 4]) (S ''out/doc/Generate'')
      (S ''Generate'') 0 (results (batch_job [0, 1, 2, 3, 4])) empty_world) = 5"
  using save_paths_distinct [of test_host "batch_job [0, 1, 2, 3, 4]" "S ''out/doc/Generate''"
      "S ''Generate''" 0 "results (batch_job [0, 1, 2, 3, 4])" empty_world]
  by (simp add: batch_job_def)

text \<open>
  C10: when auto-save is off or the job has no results, \<open>save_job_images\<close> returns 0
  and the world (directories, files, clock readings) is the one it was given.
\<close>

theorem save_job_images_noop:
  "\<not> auto_save_generated st \<or> results job = [] \<Longrightarrow> save_job_images st h job w = (Inr 0, w)"
  by (auto simp: save_job_images_def)

theorem save_job_images_noop_witness:
  "results (batch_job []) = [] \<and>
   save_job_images settings_on test_host (batch_job []) empty_world = (Inr 0, empty_world) \<and>
   \<not> auto_save_generated (settings_on\<lparr>auto_save_generated := False\<rparr>) \<and>
   save_job_images (settings_on\<lparr>auto_save_generated := False\<rparr>) test_host (batch_job [0, 1, 2])
       empty_world = (Inr 0, empty_world)"
  using save_job_images_noop [of settings_on "batch_job []" test_host empty_world]
    save_job_images_noop [of "settings_on\<lparr>auto_save_generated := False\<rparr>" "batch_job [0, 1, 2]"
      test_host empty_world]
  by (simp add: batch_job_def)

section \<open>Partial failure of a batch\<close>

lemma save_image_expected:
  "save_image h job tf it i img w
     = (image_saved h job tf it i img w, world_after_image h job tf it i img w)"
  by (simp add: save_image_def image_saved_def world_after_image_def img_save_def Let_def
      split: sum.splits)

lemma save_images_expected:
  "save_images h job tf it i imgs c w
     = (c + length (filter fst (batch_attempts h job tf it i imgs w)),
        world_after_batch h job tf it i imgs w)"
  by (induction imgs arbitrary: i c w) (simp_all add: save_image_expected)

lemma batch_attempts_length: "length (batch_attempts h job tf it i imgs w) = length imgs"
  by (induction imgs arbitrary: i w) simp_all

lemma world_after_image_dom:
  "dom (files w) \<subseteq> dom (files (world_after_image h job tf it i img w))"
  by (auto simp: world_after_image_def split: sum.splits)

lemma world_after_image_saved:
  "image_saved h job tf it i img w \<Longrightarrow>
     image_path h job tf it i w \<in> dom (files (world_after_image h job tf it i img w))"
  by (auto simp: world_after_image_def image_saved_def split: sum.splits)

lemma world_after_image_failed:
  "\<not> image_saved h job tf it i img w \<Longrightarrow>
     files (world_after_image h job tf it i img w) = files w"
  by (auto simp: world_after_image_def image_saved_def split: sum.splits)

lemma world_after_batch_dom:
  "dom (files w) \<subseteq> dom (files (world_after_batch h job tf it i imgs w))"
proof (induction imgs arbitrary: i w)
  case Nil
  show ?case by simp
next
  case (Cons img imgs)
  let ?w' = "world_after_image h job tf it i img w"
  have "dom (files ?w') \<subseteq> dom (files (world_after_batch h job tf it (Suc i) imgs ?w'))"
    by (rule Cons.IH)
  then show ?case
    using world_after_image_dom [of w h job tf it i img] by auto
qed

lemma batch_attempts_on_disk:
  "(True, p) \<in> set (batch_attempts h job tf it i imgs w) \<Longrightarrow>
     p \<in> dom (files (world_after_batch h job tf it i imgs w))"
proof (induction imgs arbitrary: i w)
  case Nil
  then show ?case by simp
next
  case (Cons img imgs)
  let ?w' = "world_after_image h job tf it i img w"
  from Cons.prems consider "image_saved h job tf it i img w" "p = image_path h job tf it i w"
    | "(True, p) \<in> set (batch_attempts h job tf it (Suc i) imgs ?w')"
    by auto
  then show ?case
  proof cases
    case 1
    then have "p \<in> dom (files ?w')" by (simp add: world_after_image_saved)
    then show ?thesis
      using world_after_batch_dom [of ?w' h job tf it "Suc i" imgs] by auto
  next
    case 2
    from Cons.IH [OF 2] show ?thesis by simp
  qed
qed

text \<open>
  The files of the world after a batch are those of the world before it and the paths of
  the images whose save succeeded, no other.
\<close>

lemma world_after_batch_files:
  "dom (files (world_after_batch h job tf it i imgs w))
     = dom (files w) \<union> {p. (True, p) \<in> set (batch_attempts h job tf it i imgs w)}"
proof (induction imgs arbitrary: i w)
  case Nil
  show ?case by simp
next
  case (Cons img imgs)
  let ?w' = "world_after_image h job tf it i img w"
  have step: "dom (files ?w')
      = dom (files w) \<union> (if image_saved h job tf it i img w
                            then {image_path h job tf it i w} else {})"
    by (auto simp: world_after_image_def image_saved_def split: sum.splits if_splits)
  have "dom (files (world_after_batch h job tf it (Suc i) imgs ?w'))
      = dom (files ?w') \<union> {p. (True, p) \<in> set (batch_attempts h job tf it (Suc i) imgs ?w')}"
    by (rule Cons.IH)
  then show ?case
    using step by auto
qed

text \<open>
  C7: when the folders are there, \<open>save_job_images\<close> goes through every image of the
  batch, whatever happened to the earlier ones, and returns the number of images for
  which \<open>prepare_for_save\<close> returned a record and \<open>Image.save\<close> did not raise. The
  world it leaves is the expected one: the files that were there before and one file for
  each of the counted images, none for the others.
\<close>

theorem save_job_images_partial_failure:
  assumes "auto_save_generated st" and "results job \<noteq> []"
    and "prepare_folders st h job w = (Inr (tf, it), w0)"
  shows "save_job_images st h job w
           = (Inr (length (filter fst (batch_attempts h job tf it 0 (results job) w0))),
              world_after_batch h job tf it 0 (results job) w0) \<and>
         length (batch_attempts h job tf it 0 (results job) w0) = length (results job) \<and>
         dom (files (snd (save_job_images st h job w)))
           = dom (files w0) \<union> {p. (True, p) \<in> set (batch_attempts h job tf it 0 (results job) w0)}"
proof -
  have res: "save_job_images st h job w
      = (Inr (length (filter fst (batch_attempts h job tf it 0 (results job) w0))),
         world_after_batch h job tf it 0 (results job) w0)"
    using assms by (simp add: save_job_images_def save_images_expected)
  show ?thesis
    unfolding res by (simp add: batch_attempts_length world_after_batch_files)
qed

lemmas eval_defs = test_host_def settings_on_def empty_world_def batch_job_def
  diffusion_job_def prepare_folders_def mkdir_def joinpath_def doc_name_def S_simps
  save_image_def image_path_def image_filename_def img_save_def metadata_json_def
  timestamp_ms_def prompt_prefix_def py_str_int_def encode_basestring_def escape_char_def
  save_job_images_def Let_def dec_digits.simps

lemmas eval_defs2 = image_saved_def world_after_image_def

lemma test_prepare_folders:
  "prepare_folders settings_on test_host (batch_job [0, 1, 2]) empty_world
     = (Inr (S ''out/unsaved_document/Generate'', S ''Generate''),
        \<lparr>dirs = {S ''out'', S ''out/unsaved_document'', S ''out/unsaved_document/Generate''},
         files = Map.empty, ticks = 0\<rparr>)"
  by (simp add: eval_defs insert_commute)

lemma test_attempts:
  "batch_attempts test_host (batch_job [0, 1, 2]) (S ''out/unsaved_document/Generate'')
     (S ''Generate'') 0 [0, 1, 2]
     \<lparr>dirs = {S ''out'', S ''out/unsaved_document'', S ''out/unsaved_document/Generate''},
      files = Map.empty, ticks = 0\<rparr>
   = [(True, S ''out/unsaved_document/Generate/a_cat_20240101-120000-000_Generate_0.png''),
      (False, S ''out/unsaved_document/Generate/a_cat_20240101-120000-000_Generate_1.png''),
      (True, S ''out/unsaved_document/Generate/a_cat_20240101-120000-000_Generate_2.png'')]"
  by (simp add: eval_defs eval_defs2)

theorem save_job_images_partial_failure_witness:
  "auto_save_generated settings_on \<and> results (batch_job [0, 1, 2]) \<noteq> [] \<and>
   fst (prepare_folders settings_on test_host (batch_job [0, 1, 2]) empty_world)
     = Inr (S ''out/unsaved_document/Generate'', S ''Generate'') \<and>
   fst (save_job_images settings_on test_host (batch_job [0, 1, 2]) empty_world) = Inr 2 \<and>
   dom (files (snd (save_job_images settings_on test_host (batch_job [0, 1, 2]) empty_world)))
     = {S ''out/unsaved_document/Generate/a_cat_20240101-120000-000_Generate_0.png'',
        S ''out/unsaved_document/Generate/a_cat_20240101-120000-000_Generate_2.png''}"
proof -
  have a: "auto_save_generated settings_on" by (simp add: settings_on_def)
  have b: "results (batch_job [0, 1, 2]) \<noteq> []" by (simp add: batch_job_def)
  have r: "results (batch_job [0, 1, 2]) = [0, 1, 2]" by (simp add: batch_job_def)
  have c: "fst (prepare_folders settings_on test_host (batch_job [0, 1, 2]) empty_world)
      = Inr (S ''out/unsaved_document/Generate'', S ''Generate'')"
    by (simp only: test_prepare_folders fst_conv)
  note T = save_job_images_partial_failure [OF a b test_prepare_folders, unfolded r test_attempts]
  have t1: "fst (save_job_images settings_on test_host (batch_job [0, 1, 2]) empty_world) = Inr 2"
    using T [THEN conjunct1] by simp
  have t2: "dom (files (snd (save_job_images settings_on test_host (batch_job [0, 1, 2])
        empty_world)))
      = {S ''out/unsaved_document/Generate/a_cat_20240101-120000-000_Generate_0.png'',
         S ''out/unsaved_document/Generate/a_cat_20240101-120000-000_Generate_2.png''}"
    using T [THEN conjunct2, THEN conjunct2] by auto
  show ?thesis using t1 t2 a b c by blast
qed

section \<open>Saving the whole history\<close>


section \<open>Size of the payload\<close>

lemma length_escaped: "length s \<le> length (concat (map escape_char s))"
  by (induction s) (auto simp: escape_char_def)

lemma length_encode_basestring: "length s < length (encode_basestring s)"
  using length_escaped [of s] by (simp add: encode_basestring_def)

lemma length_dumps_first_member:
  "length (dumps f v) < length (dumps f (JObj ((k, v) # ms)))"
  by (cases ms) (auto simp: S_simps)

text \<open>
  C2: the payload for a record whose prompt is 4001 letters \<open>a\<close>. It is longer than
  4000 characters whatever \<open>repr\<close> gives for the float: the essential record keeps the
  whole prompt.
\<close>

theorem metadata_json_long_prompt:
  "length (metadata_json f (record_with_prompt (replicate 4001 97))) > 4000"
proof -
  let ?p = "replicate 4001 (97::nat)"
  have p: "4000 < length (dumps f (JStr ?p))"
    using length_encode_basestring [of ?p] by simp
  obtain ms where full: "record_with_prompt ?p = (S ''prompt'', JStr ?p) # ms"
    by (simp add: record_with_prompt_def)
  obtain ms' where ess:
    "essential_metadata (record_with_prompt ?p) = (S ''prompt'', JStr ?p) # ms'"
    by (simp add: essential_metadata_def dict_get_def record_with_prompt_def)
  have "4000 < length (dumps f (JObj (record_with_prompt ?p)))"
    unfolding full using p length_dumps_first_member [of f "JStr ?p" "S ''prompt''" ms]
    by linarith
  moreover have "4000 < length (dumps f (JObj (essential_metadata (record_with_prompt ?p))))"
    unfolding ess using p length_dumps_first_member [of f "JStr ?p" "S ''prompt''" ms']
    by linarith
  ultimately show ?thesis by (simp add: metadata_json_def Let_def)
qed


section \<open>Which record the reader keeps\<close>

lemma latest_step: "latest (latest old [p]) ps = latest old (p # ps)"
  by (simp add: latest_def)

lemma foldl_keeps:
  assumes "\<And>m c. f m c k = m k"
  shows "foldl f m cs k = m k"
  using assms by (induction cs arbitrary: m) simp_all

lemma ai_key_other:
  "S ''PNG_tEXt_'' @ k \<noteq> ai_key" "S ''PNG_zTXt_'' @ k \<noteq> ai_key"
  "S ''PNG_iTXt_'' @ k \<noteq> ai_key" "S ''JPEG_Trouv'' @ k \<noteq> ai_key"
  "S ''Erreur extraction PNG'' \<noteq> ai_key"
  "S ''Erreur extraction JPEG'' \<noteq> ai_key" "S ''Profondeur de couleur'' \<noteq> ai_key"
  "S ''Format Qt'' \<noteq> ai_key"
  by (simp_all add: ai_key_def S_simps)

lemmas ai_key_fresh = ai_key_other ai_key_other [THEN not_sym]

lemma text_chunk_ai:
  "text_chunk L c m ai_key
     = (case text_candidate L c of None \<Rightarrow> m ai_key | Some p \<Rightarrow> Some (Parsed p))"
  by (simp add: text_chunk_def text_candidate_def is_record_keyword_def Let_def ai_key_fresh
      split: option.splits sum.splits)

lemma ztxt_chunk_ai:
  "ztxt_chunk L c m ai_key
     = (case ztxt_candidate L c of None \<Rightarrow> m ai_key | Some p \<Rightarrow> Some (Parsed p))"
  by (simp add: ztxt_chunk_def ztxt_candidate_def is_record_keyword_def Let_def ai_key_fresh
      split: option.splits ztxt_result.splits)

lemma itxt_chunk_ai: "itxt_chunk L c m ai_key = m ai_key"
  by (simp add: itxt_chunk_def Let_def ai_key_fresh split: option.splits)

lemma foldl_itxt_ai: "foldl (\<lambda>m c. itxt_chunk L c m) m cs ai_key = m ai_key"
  by (rule foldl_keeps) (rule itxt_chunk_ai)

lemma foldl_text_ai:
  "foldl (\<lambda>m c. text_chunk L c m) m cs ai_key
     = latest (m ai_key) (List.map_filter (text_candidate L) cs)"
proof (induction cs arbitrary: m)
  case Nil
  show ?case by (simp add: latest_def map_filter_simps)
next
  case (Cons c cs)
  show ?case
    by (cases "text_candidate L c")
      (simp_all add: Cons.IH text_chunk_ai map_filter_simps, simp_all add: latest_def)
qed

lemma foldl_ztxt_ai:
  "foldl (\<lambda>m c. ztxt_chunk L c m) m cs ai_key
     = latest (m ai_key) (List.map_filter (ztxt_candidate L) cs)"
proof (induction cs arbitrary: m)
  case Nil
  show ?case by (simp add: latest_def map_filter_simps)
next
  case (Cons c cs)
  show ?case
    by (cases "ztxt_candidate L c")
      (simp_all add: Cons.IH ztxt_chunk_ai map_filter_simps, simp_all add: latest_def)
qed

lemma latest_append: "latest (latest old ps) qs = latest old (ps @ qs)"
  by (simp add: latest_def)

lemma scan_png_ai:
  "scan_png L data m ai_key = latest (m ai_key) (parsed_candidates L data)"
  by (simp add: scan_png_def Let_def parsed_candidates_def foldl_itxt_ai
      foldl_ztxt_ai foldl_text_ai latest_append)

lemma jpeg_pattern_ai: "jpeg_pattern L data m pl ai_key = m ai_key"
  using ai_key_other(4) [of "[233] @ S ''_'' @ snd pl"]
  by (auto simp: jpeg_pattern_def Let_def split: option.splits)

lemma extract_jpeg_ai: "extract_jpeg L src m ai_key = m ai_key"
proof (cases src)
  case (Inl e)
  then show ?thesis by (simp add: extract_jpeg_def ai_key_fresh)
next
  case (Inr data)
  have "foldl (jpeg_pattern L data) m jpeg_patterns ai_key = m ai_key"
    by (rule foldl_keeps) (rule jpeg_pattern_ai)
  then show ?thesis using Inr by (simp add: extract_jpeg_def ai_key_fresh)
qed

lemma extract_png_ai:
  "extract_png L src m ai_key
     = (case src of Inl e \<Rightarrow> m ai_key | Inr data \<Rightarrow> latest (m ai_key) (parsed_candidates L data))"
  by (cases src) (simp_all add: extract_png_def scan_png_ai ai_key_fresh)

lemma basic_metadata_ai: "basic_metadata L img w h ai_key = None"
  by (simp add: basic_metadata_def ai_key_def S_simps)

lemma extract_metadata_ai:
  assumes "m ai_key = None"
  shows "extract_metadata L img m ai_key
     = (case qimage img of
          None \<Rightarrow> None
        | Some q \<Rightarrow>
            if str_lower L (suffix img) = S ''.png'' then
              (case contents img of
                 Inl e \<Rightarrow> None
               | Inr data \<Rightarrow> latest None (parsed_candidates L data))
            else None)"
proof (cases "qimage img")
  case None
  then show ?thesis using assms by (simp add: extract_metadata_def)
next
  case (Some q)
  show ?thesis using assms Some
    by (simp add: extract_metadata_def Let_def extract_png_ai extract_jpeg_ai ai_key_fresh
        latest_def split: sum.splits)
qed

section \<open>What the reader never overwrites\<close>

lemma kept_other:
  assumes "k = S ''Dimensions'' \<or> k = S ''Format''"
  shows "S ''PNG_tEXt_'' @ x \<noteq> k" "S ''PNG_zTXt_'' @ x \<noteq> k"
    "S ''PNG_iTXt_'' @ x \<noteq> k" "S ''JPEG_Trouv'' @ x \<noteq> k"
    "S ''Erreur extraction PNG'' \<noteq> k"
    "S ''Erreur extraction JPEG'' \<noteq> k" "S ''Profondeur de couleur'' \<noteq> k"
    "S ''Format Qt'' \<noteq> k" "ai_key \<noteq> k"
  using assms by (auto simp: ai_key_def S_simps)

lemmas kept_fresh = kept_other kept_other [THEN not_sym]

lemma text_chunk_keeps:
  "k = S ''Dimensions'' \<or> k = S ''Format'' \<Longrightarrow> text_chunk L c m k = m k"
  by (simp add: text_chunk_def Let_def kept_fresh split: option.splits sum.splits)

lemma ztxt_chunk_keeps:
  "k = S ''Dimensions'' \<or> k = S ''Format'' \<Longrightarrow> ztxt_chunk L c m k = m k"
  by (simp add: ztxt_chunk_def Let_def kept_fresh split: option.splits ztxt_result.splits)

lemma itxt_chunk_keeps:
  "k = S ''Dimensions'' \<or> k = S ''Format'' \<Longrightarrow> itxt_chunk L c m k = m k"
  by (simp add: itxt_chunk_def Let_def kept_fresh split: option.splits)

lemma jpeg_pattern_keeps:
  "k = S ''Dimensions'' \<or> k = S ''Format'' \<Longrightarrow> jpeg_pattern L data m pl k = m k"
  using kept_other(4) [of k "[233] @ S ''_'' @ snd pl"]
  by (auto simp: jpeg_pattern_def Let_def split: option.splits)

lemma extract_png_keeps:
  assumes "k = S ''Dimensions'' \<or> k = S ''Format''"
  shows "extract_png L src m k = m k"
proof (cases src)
  case (Inl e)
  then show ?thesis using assms by (simp add: extract_png_def kept_fresh)
next
  case (Inr data)
  have "\<And>m' cs. foldl (\<lambda>m c. text_chunk L c m) m' cs k = m' k"
    by (rule foldl_keeps) (rule text_chunk_keeps [OF assms])
  moreover have "\<And>m' cs. foldl (\<lambda>m c. ztxt_chunk L c m) m' cs k = m' k"
    by (rule foldl_keeps) (rule ztxt_chunk_keeps [OF assms])
  moreover have "\<And>m' cs. foldl (\<lambda>m c. itxt_chunk L c m) m' cs k = m' k"
    by (rule foldl_keeps) (rule itxt_chunk_keeps [OF assms])
  ultimately show ?thesis using Inr by (simp add: extract_png_def scan_png_def Let_def)
qed

lemma extract_jpeg_keeps:
  assumes "k = S ''Dimensions'' \<or> k = S ''Format''"
  shows "extract_jpeg L src m k = m k"
proof (cases src)
  case (Inl e)
  then show ?thesis using assms by (simp add: extract_jpeg_def kept_fresh)
next
  case (Inr data)
  have "foldl (jpeg_pattern L data) m jpeg_patterns k = m k"
    by (rule foldl_keeps) (rule jpeg_pattern_keeps [OF assms])
  then show ?thesis using Inr assms by (simp add: extract_jpeg_def kept_fresh)
qed

lemma extract_metadata_keeps:
  assumes "k = S ''Dimensions'' \<or> k = S ''Format''"
  shows "extract_metadata L img m k = m k"
proof (cases "qimage img")
  case None
  then show ?thesis by (simp add: extract_metadata_def)
next
  case (Some q)
  show ?thesis using Some
    by (simp add: extract_metadata_def Let_def extract_png_keeps [OF assms]
        extract_jpeg_keeps [OF assms] kept_fresh [OF assms])
qed

section \<open>Decode priority\<close>

lemma load_external_image_ai:
  assumes "pixmap img = Some (w, h)"
  shows "\<exists>md. load_external_image L img = Some md \<and>
     md (S ''Dimensions'')
       = Some (Text (py_str_int (int w) @ S '' x '' @ py_str_int (int h) @ S '' pixels'')) \<and>
     md (S ''Format'')
       = Some (Text (if suffix img \<noteq> [] then drop 1 (str_upper L (suffix img))
                     else S ''Inconnu'')) \<and>
     md ai_key
       = (case qimage img of
            None \<Rightarrow> None
          | Some q \<Rightarrow>
              if str_lower L (suffix img) = S ''.png'' then
                (case contents img of
                   Inl e \<Rightarrow> None
                 | Inr data \<Rightarrow> latest None (parsed_candidates L data))
              else None)"
proof -
  let ?m = "basic_metadata L img w h"
  have d: "?m (S ''Dimensions'')
      = Some (Text (py_str_int (int w) @ S '' x '' @ py_str_int (int h) @ S '' pixels''))"
    by (simp add: basic_metadata_def S_simps)
  have f: "?m (S ''Format'')
      = Some (Text (if suffix img \<noteq> [] then drop 1 (str_upper L (suffix img))
                    else S ''Inconnu''))"
    by (simp add: basic_metadata_def S_simps)
  show ?thesis
    using assms d f extract_metadata_ai [of ?m L img, OF basic_metadata_ai]
    by (simp add: load_external_image_def extract_metadata_keeps)
qed

lemmas lib_defs = observed_lib_def observed_loads_def observed_decompress_def

lemmas png_defs = saved_png_def two_records_png_def method_1_png_def png_signature_def
  ihdr_chunk_def idat_chunk_def iend_chunk_def png_chunk_def be32_def
  deflated_seed_1_def deflated_seed_2_def

lemmas payload_defs = cat_payload_def metadata_json_def record_with_prompt_def
  encode_basestring_def escape_char_def py_str_int_def dec_digits.simps Let_def seed_record_def

lemma two_records_ztxt:
  "png_chunks (S ''zTXt'') two_records_png =
     [S ''AI'' @ [0, 0] @ deflated_seed_1 @ [217, 13, 218, 225] @ be32 28,
      S ''metadata'' @ [0, 0] @ deflated_seed_2 @ [0, 254, 153, 11] @ be32 10]"
  by (simp add: png_chunks_def png_defs S_simps starts_with_def)

lemma two_records_text: "png_chunks (S ''tEXt'') two_records_png = []"
  by (simp add: png_chunks_def png_defs S_simps starts_with_def)

lemma two_records_itxt: "png_chunks (S ''iTXt'') two_records_png = []"
  by (simp add: png_chunks_def png_defs S_simps starts_with_def)

lemma two_records_candidates:
  "parsed_candidates observed_lib two_records_png = [seed_record 1, seed_record 2]"
  unfolding parsed_candidates_def two_records_ztxt two_records_text
  by (simp add: map_filter_simps
      ztxt_candidate_def find_null_def find_null_from_def read_ztxt_def lib_defs
      is_record_keyword_def is_ai_keyword_def S_simps strip_def is_space_def
      deflated_seed_1_def deflated_seed_2_def be32_def payload_defs)

lemma two_records_scan:
  "scan_png observed_lib two_records_png m
     = m(ai_key \<mapsto> Parsed (seed_record 2))"
  unfolding scan_png_def two_records_ztxt two_records_text two_records_itxt
  by (simp add: ztxt_chunk_def find_null_def find_null_from_def read_ztxt_def lib_defs
      is_record_keyword_def is_ai_keyword_def S_simps strip_def is_space_def
      deflated_seed_1_def deflated_seed_2_def be32_def payload_defs)

text \<open>
  C4 (as stated): the file holds two chunks under recognised keywords, \<open>AI\<close> and then
  \<open>metadata\<close>, and both parse. The claim makes the first one the record and keeps
  the other as a raw entry; the reader ends with the second one as the record and keeps
  no entry for either chunk.
\<close>

theorem first_candidate_counterexample:
  "parsed_candidates observed_lib two_records_png = [seed_record 1, seed_record 2] \<and>
   (case load_external_image observed_lib (png_file two_records_png) of
      None \<Rightarrow> False
    | Some md \<Rightarrow>
        md ai_key \<noteq> Some (Parsed (hd (parsed_candidates observed_lib two_records_png))) \<and>
        md ai_key = Some (Parsed (seed_record 2)) \<and>
        md (S ''PNG_zTXt_AI'') = None \<and> md (S ''PNG_zTXt_metadata'') = None)"
  unfolding two_records_candidates load_external_image_def extract_metadata_def
  by (simp add: png_file_def observed_lib_def [THEN arg_cong, of str_lower] S_simps
      extract_png_def two_records_scan basic_metadata_def ai_key_def seed_record_def)

text \<open>
  C4 (amended): for a PNG file, the record the reader ends with is the last candidate
  that parses, in the order of the loops (the \<open>tEXt\<close> chunks of the file, then its
  \<open>zTXt\<close> chunks): every later successful parse replaces the record of an earlier
  one. There is no record when no candidate parses.
\<close>

theorem last_candidate_wins:
  assumes "pixmap img = Some (w, h)" and "qimage img = Some q"
    and "str_lower L (suffix img) = S ''.png''" and "contents img = Inr data"
  shows "\<exists>md. load_external_image L img = Some md \<and>
     md ai_key = (if parsed_candidates L data = [] then None
                  else Some (Parsed (last (parsed_candidates L data))))"
  using load_external_image_ai [OF assms(1), of L] assms(2-4)
  by (auto simp: latest_def)

theorem last_candidate_wins_witness:
  "pixmap (png_file two_records_png) = Some (1, 1) \<and>
   qimage (png_file two_records_png) = Some \<lparr>depth = 8, format_name = None\<rparr> \<and>
   str_lower observed_lib (suffix (png_file two_records_png)) = S ''.png'' \<and>
   contents (png_file two_records_png) = Inr two_records_png \<and>
   parsed_candidates observed_lib two_records_png = [seed_record 1, seed_record 2] \<and>
   (\<exists>md. load_external_image observed_lib (png_file two_records_png) = Some md \<and>
      md ai_key = Some (Parsed (seed_record 2)))"
proof -
  have a: "pixmap (png_file two_records_png) = Some (1, 1)"
    and b: "qimage (png_file two_records_png) = Some \<lparr>depth = 8, format_name = None\<rparr>"
    and c: "str_lower observed_lib (suffix (png_file two_records_png)) = S ''.png''"
    and d: "contents (png_file two_records_png) = Inr two_records_png"
    by (simp_all add: png_file_def observed_lib_def S_simps)
  show ?thesis
    using last_candidate_wins [OF a b c d] a b c d
    by (simp add: two_records_candidates)
qed

section \<open>The saved file, chunk by chunk\<close>

lemma saved_png_text:
  "png_chunks (S ''tEXt'') saved_png =
     [S ''metadata'' @ [0] @ cat_payload @ [121, 52, 39, 70] @ be32 10]"
  by (simp add: png_chunks_def png_defs S_simps starts_with_def payload_defs)

lemma saved_png_ztxt: "png_chunks (S ''zTXt'') saved_png = []"
  by (simp add: png_chunks_def png_defs S_simps starts_with_def payload_defs)

lemma saved_png_itxt: "png_chunks (S ''iTXt'') saved_png = []"
  by (simp add: png_chunks_def png_defs S_simps starts_with_def payload_defs)

lemma cat_payload_ascii: "filter (\<lambda>b. b < 128) cat_payload = cat_payload"
  by (simp add: payload_defs S_simps)

lemma cat_payload_no_null: "0 \<notin> set cat_payload"
  by (simp add: payload_defs S_simps)

lemma cat_payload_last: "rev cat_payload = 125 # rev (butlast cat_payload)"
  by (simp add: payload_defs S_simps)

lemma cat_payload_first: "dropWhile is_space cat_payload = cat_payload"
  by (simp add: payload_defs S_simps is_space_def)

lemma saved_png_cleaned:
  "strip (filter (\<lambda>b. b < 128) (cat_payload @ [121, 52, 39, 70] @ be32 10))
     = cat_payload @ [121, 52, 39, 70, 0, 0, 0]"
proof -
  have "dropWhile is_space (cat_payload @ [121, 52, 39, 70, 0, 0, 0, 10])
      = cat_payload @ [121, 52, 39, 70, 0, 0, 0, 10]"
    by (simp add: payload_defs S_simps is_space_def)
  then show ?thesis
    by (simp add: strip_def be32_def cat_payload_ascii is_space_def)
qed

lemma saved_png_candidates: "parsed_candidates observed_lib saved_png = []"
  using saved_png_cleaned
  unfolding parsed_candidates_def saved_png_text saved_png_ztxt
  by (simp add: map_filter_simps
      text_candidate_def find_null_def find_null_from_def cat_payload_no_null
      takeWhile_append2 lib_defs is_record_keyword_def is_ai_keyword_def S_simps)

section \<open>Unsupported compression\<close>









section \<open>Reading back what was saved\<close>

lemma saved_png_scan:
  "scan_png observed_lib saved_png m
     = m(S ''PNG_tEXt_metadata'' \<mapsto> Text (cat_payload @ [121, 52, 39, 70, 0, 0, 0, 10]))"
  using saved_png_cleaned
  unfolding scan_png_def saved_png_text saved_png_ztxt saved_png_itxt
  by (simp add: text_chunk_def find_null_def find_null_from_def cat_payload_no_null
      takeWhile_append2 lib_defs is_ai_keyword_def S_simps be32_def cat_payload_ascii)

text \<open>
  C1: the record of a diffusion job with the prompt \<open>a cat\<close> is encoded (226
  characters, so no truncation) and stored under the keyword \<open>metadata\<close> in a
  \<open>tEXt\<close> chunk of a PNG file. Reading the file back gives no record: the pattern
  takes the CRC of the chunk and the length field of the next chunk into the text, and
  \<open>json.loads\<close> refuses it (\<open>Extra data\<close>). The text is kept as a raw entry.
\<close>

theorem saved_record_not_read_back:
  "cat_payload = dumps (\<lambda>r. S ''1.0'') (JObj (record_with_prompt (S ''a cat''))) \<and>
   length cat_payload = 226 \<and>
   (case load_external_image observed_lib (png_file saved_png) of
      None \<Rightarrow> False
    | Some md \<Rightarrow>
        md ai_key = None \<and>
        md (S ''PNG_tEXt_metadata'')
          = Some (Text (cat_payload @ [121, 52, 39, 70, 0, 0, 0, 10])))"
proof -
  have l: "length cat_payload = 226"
    by (simp add: payload_defs S_simps)
  have p: "cat_payload = dumps (\<lambda>r. S ''1.0'') (JObj (record_with_prompt (S ''a cat'')))"
    by (simp add: payload_defs S_simps)
  have r: "case load_external_image observed_lib (png_file saved_png) of
      None \<Rightarrow> False
    | Some md \<Rightarrow>
        md ai_key = None \<and>
        md (S ''PNG_tEXt_metadata'')
          = Some (Text (cat_payload @ [121, 52, 39, 70, 0, 0, 0, 10]))"
    unfolding load_external_image_def extract_metadata_def
    by (simp add: png_file_def observed_lib_def [THEN arg_cong, of str_lower] S_simps
        extract_png_def saved_png_scan basic_metadata_def ai_key_def)
  show ?thesis using l p r by blast
qed

section \<open>The dialog of the reader\<close>

lemma reader_keys:
  "reader_key (S ''PNG_tEXt_'' @ x)" "reader_key (S ''PNG_zTXt_'' @ x)"
  "reader_key (S ''PNG_iTXt_'' @ x)" "reader_key (S ''JPEG_Trouv'' @ x)"
  "reader_key (S ''Erreur extraction PNG'')" "reader_key (S ''Erreur extraction JPEG'')"
  "reader_key (S ''Profondeur de couleur'')" "reader_key (S ''Format Qt'')"
  "reader_key ai_key"
  by (simp_all add: reader_key_def starts_with_def ai_key_def S_simps)

lemma not_reader_key:
  assumes "\<not> reader_key k"
  shows "S ''PNG_tEXt_'' @ x \<noteq> k" "S ''PNG_zTXt_'' @ x \<noteq> k"
    "S ''PNG_iTXt_'' @ x \<noteq> k" "S ''JPEG_Trouv'' @ x \<noteq> k"
    "S ''Erreur extraction PNG'' \<noteq> k"
    "S ''Erreur extraction JPEG'' \<noteq> k" "S ''Profondeur de couleur'' \<noteq> k"
    "S ''Format Qt'' \<noteq> k" "ai_key \<noteq> k"
  using assms reader_keys by blast+

lemmas foreign_key = not_reader_key not_reader_key [THEN not_sym]

lemma text_chunk_foreign: "\<not> reader_key k \<Longrightarrow> text_chunk L c m k = m k"
  by (simp add: text_chunk_def Let_def foreign_key split: option.splits sum.splits)

lemma ztxt_chunk_foreign: "\<not> reader_key k \<Longrightarrow> ztxt_chunk L c m k = m k"
  by (simp add: ztxt_chunk_def Let_def foreign_key split: option.splits ztxt_result.splits)

lemma itxt_chunk_foreign: "\<not> reader_key k \<Longrightarrow> itxt_chunk L c m k = m k"
  by (simp add: itxt_chunk_def Let_def foreign_key split: option.splits)

lemma jpeg_pattern_foreign: "\<not> reader_key k \<Longrightarrow> jpeg_pattern L data m pl k = m k"
  using not_reader_key(4) [of k "[233] @ S ''_'' @ snd pl"]
  by (auto simp: jpeg_pattern_def Let_def split: option.splits)

lemma extract_png_foreign:
  assumes "\<not> reader_key k"
  shows "extract_png L src m k = m k"
proof (cases src)
  case (Inl e)
  then show ?thesis using assms by (simp add: extract_png_def foreign_key)
next
  case (Inr data)
  have "\<And>m' cs. foldl (\<lambda>m c. text_chunk L c m) m' cs k = m' k"
    by (rule foldl_keeps) (rule text_chunk_foreign [OF assms])
  moreover have "\<And>m' cs. foldl (\<lambda>m c. ztxt_chunk L c m) m' cs k = m' k"
    by (rule foldl_keeps) (rule ztxt_chunk_foreign [OF assms])
  moreover have "\<And>m' cs. foldl (\<lambda>m c. itxt_chunk L c m) m' cs k = m' k"
    by (rule foldl_keeps) (rule itxt_chunk_foreign [OF assms])
  ultimately show ?thesis using Inr by (simp add: extract_png_def scan_png_def Let_def)
qed

lemma extract_jpeg_foreign:
  assumes "\<not> reader_key k"
  shows "extract_jpeg L src m k = m k"
proof (cases src)
  case (Inl e)
  then show ?thesis using assms by (simp add: extract_jpeg_def foreign_key)
next
  case (Inr data)
  have "foldl (jpeg_pattern L data) m jpeg_patterns k = m k"
    by (rule foldl_keeps) (rule jpeg_pattern_foreign [OF assms])
  then show ?thesis using Inr assms by (simp add: extract_jpeg_def foreign_key)
qed

lemma basic_metadata_foreign:
  assumes "\<not> reader_key k"
  shows "basic_metadata L img w h k = None"
proof -
  have "k \<noteq> S ''Nom du fichier''" "k \<noteq> S ''Chemin''" "k \<noteq> S ''Taille du fichier''"
    "k \<noteq> S ''Dimensions''" "k \<noteq> S ''Format''"
    using assms by (simp_all add: reader_key_def)
  then show ?thesis by (simp add: basic_metadata_def)
qed

lemma extract_metadata_foreign:
  assumes "\<not> reader_key k"
  shows "extract_metadata L img m k = m k"
proof (cases "qimage img")
  case None
  then show ?thesis by (simp add: extract_metadata_def)
next
  case (Some q)
  then show ?thesis
    by (simp add: extract_metadata_def Let_def extract_png_foreign [OF assms]
        extract_jpeg_foreign [OF assms] foreign_key [OF assms])
qed

text \<open>Every key of the dictionary of the reader is one of \<open>reader_key\<close>.\<close>

lemma load_external_image_keys:
  assumes "load_external_image L img = Some md" and "md k \<noteq> None"
  shows "reader_key k"
proof (rule ccontr)
  assume n: "\<not> reader_key k"
  obtain w h where "md = extract_metadata L img (basic_metadata L img w h)"
    using assms(1) by (cases "pixmap img") (auto simp: load_external_image_def)
  then have "md k = None"
    by (simp add: extract_metadata_foreign [OF n] basic_metadata_foreign [OF n])
  with assms(2) show False by simp
qed

text \<open>
  No such key starts with \<open>AI_prompt\<close>: the branch of the loop for the old format is
  never entered on the dictionary of the reader.
\<close>

lemma ai_prompt_not_reader_key:
  assumes "starts_with (S ''AI_prompt'') k"
  shows "\<not> reader_key k"
proof -
  have "take (length (S ''AI_prompt'')) k = S ''AI_prompt''"
    using assms by (simp only: starts_with_def)
  then have "k = S ''AI_prompt'' @ drop (length (S ''AI_prompt'')) k"
    by (metis append_take_drop_id)
  then obtain r where k: "k = S ''AI_prompt'' @ r" ..
  show ?thesis
    unfolding k by (simp add: reader_key_def starts_with_def S_simps)
qed

lemma old_format_branch_unreachable:
  assumes "load_external_image L img = Some md" and "starts_with (S ''AI_prompt'') k"
  shows "md k = None"
  using load_external_image_keys [OF assms(1), of k] ai_prompt_not_reader_key [OF assms(2)]
  by blast

lemma metadata_dialog_raises:
  assumes "metadata ai_key = Some (Parsed v)" and "record_lines B v = Inl e"
  shows "metadata_dialog B metadata = Inl e"
proof -
  have "metadata \<noteq> Map.empty" using assms(1) by auto
  then show ?thesis using assms by (simp add: metadata_dialog_def mval_json_def and_then_def)
qed

lemma number_png_ztxt:
  "png_chunks (S ''zTXt'') number_png =
     [S ''metadata'' @ [0, 0] @ deflated_42 @ [129, 1, 138, 149] @ be32 10]"
  by (simp add: png_chunks_def number_png_def png_signature_def ihdr_chunk_def idat_chunk_def
      iend_chunk_def png_chunk_def be32_def deflated_42_def S_simps starts_with_def)

lemma number_png_text: "png_chunks (S ''tEXt'') number_png = []"
  by (simp add: png_chunks_def number_png_def png_signature_def ihdr_chunk_def idat_chunk_def
      iend_chunk_def png_chunk_def be32_def deflated_42_def S_simps starts_with_def)

lemma number_png_candidates: "parsed_candidates observed_lib number_png = [JInt 42]"
  unfolding parsed_candidates_def number_png_ztxt number_png_text
  by (simp add: map_filter_simps ztxt_candidate_def find_null_def find_null_from_def
      read_ztxt_def lib_defs is_record_keyword_def is_ai_keyword_def S_simps strip_def
      is_space_def deflated_42_def deflated_seed_1_def deflated_seed_2_def be32_def
      payload_defs)

text \<open>
  C5: a PNG file of one pixel whose only text chunk is a \<open>zTXt\<close> chunk under the
  keyword \<open>metadata\<close> with the JSON text \<open>42\<close>. The text parses, the reader keeps
  the number as the record, and the dialog half starts with \<open>"prompt" in ai_metadata\<close>,
  which raises \<open>TypeError\<close> on a number: the exception leaves \<open>_load_external_image\<close>,
  whatever \<open>str\<close> and the float format do.
\<close>

theorem external_image_dialog_raises:
  "parsed_candidates observed_lib number_png = [JInt 42] \<and>
   show_external_image observed_lib B False (png_file number_png) = Raised TypeError"
proof -
  have a: "pixmap (png_file number_png) = Some (1, 1)"
    and q: "qimage (png_file number_png) = Some \<lparr>depth = 8, format_name = None\<rparr>"
    and c: "contents (png_file number_png) = Inr number_png"
    and s: "str_lower observed_lib (suffix (png_file number_png)) = S ''.png''"
    by (simp_all add: png_file_def observed_lib_def S_simps)
  obtain md where md: "load_external_image observed_lib (png_file number_png) = Some md"
    and ai: "md ai_key = Some (Parsed (JInt 42))"
    using load_external_image_ai [OF a, of observed_lib] q c s
    by (auto simp: number_png_candidates latest_def)
  have r: "record_lines B (JInt 42) = Inl TypeError"
    by (simp add: record_lines_def show_prompt_def and_then_def)
  have "metadata_dialog B md = Inl TypeError"
    using metadata_dialog_raises [of md "JInt 42" B TypeError] ai r by simp
  then show ?thesis
    using a md by (simp add: show_external_image_def number_png_candidates)
qed

end
